theory Spec2Isabelle
  imports Complex_Main
begin

section \<open>JavaScript numbers and coercions used by src/index.js\<close>

text \<open>
  The prediction engine of \<^verbatim>\<open>src/index.js\<close> computes with JavaScript numbers.
  The embedding is in exact arithmetic: a finite number is a \<^typ>\<open>real\<close>, so rounding,
  overflow and underflow of IEEE doubles are not part of the model.  What is part of
  the model is the value \<^verbatim>\<open>NaN\<close>, because two expressions of the source produce it
  (or \<^verbatim>\<open>undefined\<close>) on every run.  A number that may be \<^verbatim>\<open>NaN\<close> has type
  \<open>jsnum\<close>; a number that the code computes from finite numbers with \<^verbatim>\<open>+ - * /\<close>
  (division by a non-zero value), \<^verbatim>\<open>Math.exp\<close> and \<^verbatim>\<open>Math.pow\<close> has type
  \<^typ>\<open>real\<close>.
\<close>

datatype jsnum = Num real | NaN

fun jsadd :: "jsnum \<Rightarrow> jsnum \<Rightarrow> jsnum" where
  "jsadd (Num x) (Num y) = Num (x + y)"
| "jsadd _ _ = NaN"

fun jssub :: "jsnum \<Rightarrow> jsnum \<Rightarrow> jsnum" where
  "jssub (Num x) (Num y) = Num (x - y)"
| "jssub _ _ = NaN"

fun jsmul :: "jsnum \<Rightarrow> jsnum \<Rightarrow> jsnum" where
  "jsmul (Num x) (Num y) = Num (x * y)"
| "jsmul _ _ = NaN"

text \<open>A unary operation that maps finite numbers to finite numbers and \<^verbatim>\<open>NaN\<close> to
  \<^verbatim>\<open>NaN\<close>: division by a non-zero literal, \<^verbatim>\<open>Math.round\<close>,
  \<^verbatim>\<open>Number(x.toFixed(2))\<close>.\<close>

fun jsmap :: "(real \<Rightarrow> real) \<Rightarrow> jsnum \<Rightarrow> jsnum" where
  "jsmap f (Num x) = Num (f x)"
| "jsmap f NaN = NaN"

text \<open>\<^verbatim>\<open>Math.min\<close> and \<^verbatim>\<open>Math.max\<close> return \<^verbatim>\<open>NaN\<close> as soon as one argument is
  \<^verbatim>\<open>NaN\<close>.\<close>

fun Math_min :: "jsnum \<Rightarrow> jsnum \<Rightarrow> jsnum" where
  "Math_min (Num x) (Num y) = Num (min x y)"
| "Math_min _ _ = NaN"

fun Math_max :: "jsnum \<Rightarrow> jsnum \<Rightarrow> jsnum" where
  "Math_max (Num x) (Num y) = Num (max x y)"
| "Math_max _ _ = NaN"

text \<open>\<^verbatim>\<open>Math.round\<close> rounds to the nearest integer, a half towards plus infinity.\<close>

definition Math_round :: "jsnum \<Rightarrow> jsnum" where
  "Math_round v = jsmap (\<lambda>x. of_int \<lfloor>x + 1 / 2\<rfloor>) v"

text \<open>A comparison \<^verbatim>\<open>v >= c\<close> with \<^verbatim>\<open>NaN\<close> on the left is false.\<close>

fun jsge :: "jsnum \<Rightarrow> real \<Rightarrow> bool" where
  "jsge (Num x) c = (c \<le> x)"
| "jsge NaN c = False"

text \<open>
  \<^verbatim>\<open>function clamp(v, min, max) { return Math.max(min, Math.min(max, v)); }\<close>

  The source has one function; it is used at finite numbers (the rates) and at a
  number that may be \<^verbatim>\<open>NaN\<close> (the confidence percentage), hence the two typings.
\<close>

definition clamp :: "real \<Rightarrow> real \<Rightarrow> real \<Rightarrow> real" where
  "clamp v lo hi = max lo (min hi v)"

definition clamp_js :: "jsnum \<Rightarrow> real \<Rightarrow> real \<Rightarrow> jsnum" where
  "clamp_js v lo hi = Math_max (Num lo) (Math_min (Num hi) v)"

text \<open>
  \<^verbatim>\<open>Number(x.toFixed(2))\<close>: \<^verbatim>\<open>toFixed\<close> takes the sign off, picks the integer \<open>n\<close>
  with \<open>n / 100\<close> nearest to the magnitude (the larger one on a tie) and prints it
  with two decimals; \<^verbatim>\<open>Number\<close> reads the decimal back.
\<close>

definition toFixed2 :: "real \<Rightarrow> real" where
  "toFixed2 x = (if x < 0 then - (of_int \<lfloor>- x * 100 + 1 / 2\<rfloor> / 100)
                 else of_int \<lfloor>x * 100 + 1 / 2\<rfloor> / 100)"

text \<open>
  An Array used as an operand of \<^verbatim>\<open>-\<close> is converted by ToNumber: first to the string
  \<^verbatim>\<open>join(",")\<close> of its elements, then that string is read as a number.  The empty
  string reads as 0, the print of one number reads as that number, and a string with
  a comma in it (two elements or more) is not a numeric literal and reads as
  \<^verbatim>\<open>NaN\<close>.
\<close>

fun arrayToNumber :: "real list \<Rightarrow> jsnum" where
  "arrayToNumber [] = Num 0"
| "arrayToNumber [x] = Num x"
| "arrayToNumber (x # y # zs) = NaN"

text \<open>
  \<^verbatim>\<open>Array.prototype.sort(cmp)\<close> is a stable sort: \<open>x\<close> stays in front of a later
  \<open>y\<close> unless \<open>cmp(x, y) > 0\<close>.
\<close>

fun insort_cmp :: "('a \<Rightarrow> 'a \<Rightarrow> real) \<Rightarrow> 'a \<Rightarrow> 'a list \<Rightarrow> 'a list" where
  "insort_cmp cmp x [] = [x]"
| "insort_cmp cmp x (y # ys) =
     (if cmp x y \<le> 0 then x # y # ys else y # insort_cmp cmp x ys)"

definition sort_cmp :: "('a \<Rightarrow> 'a \<Rightarrow> real) \<Rightarrow> 'a list \<Rightarrow> 'a list" where
  "sort_cmp cmp xs = foldr (insort_cmp cmp) xs []"

text \<open>
  Reading a property of an Array: \<^verbatim>\<open>length\<close> and the indices below the length are
  its own properties; the members of \<^verbatim>\<open>Array.prototype\<close> and \<^verbatim>\<open>Object.prototype\<close>
  are inherited and read as function objects; every other name reads as
  \<^verbatim>\<open>undefined\<close>.  The name \<^verbatim>\<open>key\<close> is such a name (the method is \<^verbatim>\<open>keys\<close>).
\<close>

datatype propname = Index nat | Named string

datatype 'a jsval = Undefined | NumV real | StrV string | ObjV 'a | FunV string

definition arrayInherited :: "string list" where
  "arrayInherited =
     [''at'', ''concat'', ''copyWithin'', ''entries'', ''every'', ''fill'', ''filter'',
      ''find'', ''findIndex'', ''findLast'', ''findLastIndex'', ''flat'', ''flatMap'',
      ''forEach'', ''includes'', ''indexOf'', ''join'', ''keys'', ''lastIndexOf'', ''map'',
      ''pop'', ''push'', ''reduce'', ''reduceRight'', ''reverse'', ''shift'', ''slice'',
      ''some'', ''sort'', ''splice'', ''toLocaleString'', ''toReversed'', ''toSorted'',
      ''toSpliced'', ''toString'', ''unshift'', ''values'', ''with'', ''constructor'',
      ''hasOwnProperty'', ''isPrototypeOf'', ''propertyIsEnumerable'', ''valueOf'']"

fun arrayGet :: "'a list \<Rightarrow> propname \<Rightarrow> 'a jsval" where
  "arrayGet xs (Index i) = (if i < length xs then ObjV (xs ! i) else Undefined)"
| "arrayGet xs (Named n) =
     (if n = ''length'' then NumV (real (length xs))
      else if n \<in> set arrayInherited then FunV n
      else Undefined)"

section \<open>factorial and poissonPMF\<close>

text \<open>
  \<^verbatim>\<open>
  const factCache = {};
  function factorial(n) {
    if (n <= 1) return 1;
    if (factCache[n]) return factCache[n];
    let r = 1;
    for (let i = 2; i <= n; i++) r *= i;
    factCache[n] = r;
    return r;
  }
  \<close>
  \<open>factorial_memo\<close> is the function with its cache as explicit state;
  \<open>factorial\<close> is the value it returns, which does not depend on a cache that
  holds only values stored by earlier calls (lemma \<open>factorial_memo_value\<close>), and
  that is what the rest of the model uses.
\<close>

definition factorial_loop :: "nat \<Rightarrow> real" where
  "factorial_loop n = fold (\<lambda>i r. r * real i) [2..<Suc n] 1"

definition factorial_memo :: "(nat \<rightharpoonup> real) \<Rightarrow> nat \<Rightarrow> real \<times> (nat \<rightharpoonup> real)" where
  "factorial_memo factCache n =
     (if n \<le> 1 then (1, factCache)
      else case factCache n of
             Some v \<Rightarrow> if v \<noteq> 0 then (v, factCache)
                       else (factorial_loop n, factCache(n \<mapsto> factorial_loop n))
           | None \<Rightarrow> (factorial_loop n, factCache(n \<mapsto> factorial_loop n)))"

definition factorial :: "nat \<Rightarrow> real" where
  "factorial n = (if n \<le> 1 then 1 else factorial_loop n)"

definition cache_ok :: "(nat \<rightharpoonup> real) \<Rightarrow> bool" where
  "cache_ok factCache = (\<forall>n v. factCache n = Some v \<longrightarrow> v = factorial n)"

text \<open>
  \<^verbatim>\<open>
  function poissonPMF(lambda, k) {
    if (lambda <= 0) return k === 0 ? 1 : 0;
    return (Math.exp(-lambda) * Math.pow(lambda, k)) / factorial(k);
  }
  \<close>
  \<^verbatim>\<open>Math.exp\<close> and \<^verbatim>\<open>Math.pow\<close> are the exact exponential and power here, and
  the product and the quotient are exact.  The program computes them in doubles: its
  values differ from the model's by rounding, and for rates in the hundreds
  \<^verbatim>\<open>Math.exp(-lambda)\<close> underflows to 0 there and not here.  The properties of the
  outcome probabilities below are therefore stated for rates in the range from 0.4
  to 3.2, to which \<open>buildPredictionForFixture\<close> clamps them, and only where the model
  leaves a margin far above the rounding of doubles.
\<close>

definition poissonPMF :: "real \<Rightarrow> nat \<Rightarrow> real" where
  "poissonPMF lambda k =
     (if lambda \<le> 0 then (if k = 0 then 1 else 0)
      else (exp (- lambda) * lambda ^ k) / factorial k)"

section \<open>computeFormFactor\<close>

record formSample =
  home :: bool
  goalsFor :: real
  goalsAgainst :: real

record formFactor =
  attack :: real
  defense :: real
  matches :: nat

text \<open>The argument is \<open>None\<close> for \<^verbatim>\<open>null\<close> (the lookup found nothing or failed).\<close>

definition computeFormFactor :: "formSample list option \<Rightarrow> formFactor" where
  "computeFormFactor list =
     (case list of
        None \<Rightarrow> \<lparr>attack = 1, defense = 1, matches = 0\<rparr>
      | Some l \<Rightarrow>
          if length l = 0 then \<lparr>attack = 1, defense = 1, matches = 0\<rparr>
          else
            let (gf, ga) = fold (\<lambda>m (gf, ga). (gf + goalsFor m, ga + goalsAgainst m)) l (0, 0);
                n = length l;
                avgGF = gf / real n;
                avgGA = ga / real n;
                base = 1.3;
                atk = 0.7 + 0.3 * (avgGF / base);
                def = 0.7 + 0.3 * (base / max avgGA 0.3)
            in \<lparr>attack = clamp atk 0.6 1.4, defense = clamp def 0.6 1.4, matches = n\<rparr>)"

section \<open>computeDistributionClarity and buildRealConfidence\<close>

text \<open>
  \<^verbatim>\<open>
  function computeDistributionClarity(h, d, a) {
    const s = [h, d, a].sort((x, y) => y - x);
    const diff = (s - s) / 100;
    return Number(Math.min(1, diff / 0.4).toFixed(2));
  }
  \<close>
  The subtraction has the sorted array itself on both sides, not two of its elements.
\<close>

definition computeDistributionClarity :: "real \<Rightarrow> real \<Rightarrow> real \<Rightarrow> jsnum" where
  "computeDistributionClarity h d a =
     (let s = sort_cmp (\<lambda>x y. y - x) [h, d, a];
          diff = jsmap (\<lambda>v. v / 100) (jssub (arrayToNumber s) (arrayToNumber s))
      in jsmap toFixed2 (Math_min (Num 1) (jsmap (\<lambda>v. v / 0.4) diff)))"

record matchContext =
  homeMatchesTotal :: real
  awayMatchesTotal :: real
  homeRecentMatches :: real
  awayRecentMatches :: real
  dataQuality :: real
  sampleSize :: real
  recentFactor :: real

record confComponents =
  dataQ :: real
  sample :: real
  clarity :: jsnum
  recent :: real

text \<open>The labels are the strings \<^verbatim>\<open>scazuta\<close> (low), \<^verbatim>\<open>medie\<close> (medium) and
  \<^verbatim>\<open>ridicata\<close> (high) of the source, written there with Romanian diacritics.\<close>

datatype confLabel = Scazuta | Medie | Ridicata

record realConfidence =
  percent :: jsnum
  components :: confComponents
  label :: confLabel

text \<open>\<^verbatim>\<open>x || 0\<close> on a number: 0 when \<open>x\<close> is falsy, that is 0, else \<open>x\<close>.\<close>

definition orZero :: "real \<Rightarrow> real" where
  "orZero x = (if x = 0 then 0 else x)"

text \<open>
  \<^verbatim>\<open>
  function buildRealConfidence({ probHome, probDraw, probAway, context }) {
    let dataQ = 0.3, sample = 0.3;
    if (context) {
      const h = context.homeMatchesTotal || 0;
      const a = context.awayMatchesTotal || 0;
      if (h >= 5 && a >= 5) dataQ = 1;
      else if (h >= 3 && a >= 3) dataQ = 0.7;
      else dataQ = 0.4;
      sample = Math.min(1, (h + a) / 40);
    }
    let recent = 0.3;
    if (context) {
      const m = Math.min(context.homeRecentMatches || 0, context.awayRecentMatches || 0);
      if (m >= 5) recent = 1;
      else if (m >= 3) recent = 0.7;
      else if (m >= 1) recent = 0.5;
    }
    const clarity = computeDistributionClarity(probHome, probDraw, probAway);
    const score = dataQ * 0.35 + sample * 0.25 + clarity * 0.25 + recent * 0.15;
    const pct = Math.round(Math.max(0, Math.min(1, score)) * 100);
    let label = "scazuta";
    if (pct >= 60) label = "ridicata";
    else if (pct >= 40) label = "medie";
    return { percent: pct, components: { dataQ, sample, clarity, recent }, label };
  }
  \<close>
  \<open>context\<close> is \<open>None\<close> for a missing (falsy) context object.
\<close>

definition buildRealConfidence ::
  "real \<Rightarrow> real \<Rightarrow> real \<Rightarrow> matchContext option \<Rightarrow> realConfidence" where
  "buildRealConfidence probHome probDraw probAway context =
     (let (dataQ, sample) =
            (case context of
               None \<Rightarrow> (0.3, 0.3)
             | Some c \<Rightarrow>
                 let h = orZero (homeMatchesTotal c);
                     a = orZero (awayMatchesTotal c)
                 in ((if h \<ge> 5 \<and> a \<ge> 5 then 1
                      else if h \<ge> 3 \<and> a \<ge> 3 then 0.7
                      else 0.4),
                     min 1 ((h + a) / 40)));
          recent =
            (case context of
               None \<Rightarrow> 0.3
             | Some c \<Rightarrow>
                 let m = min (orZero (homeRecentMatches c)) (orZero (awayRecentMatches c))
                 in if m \<ge> 5 then 1
                    else if m \<ge> 3 then 0.7
                    else if m \<ge> 1 then 0.5
                    else 0.3);
          clarity = computeDistributionClarity probHome probDraw probAway;
          score = jsadd (jsadd (jsadd (jsmul (Num dataQ) (Num 0.35))
                                      (jsmul (Num sample) (Num 0.25)))
                               (jsmul clarity (Num 0.25)))
                        (jsmul (Num recent) (Num 0.15));
          pct = Math_round (jsmul (Math_max (Num 0) (Math_min (Num 1) score)) (Num 100));
          label = (if jsge pct 60 then Ridicata else if jsge pct 40 then Medie else Scazuta)
      in \<lparr>percent = pct,
          components = \<lparr>dataQ = dataQ, sample = sample, clarity = clarity, recent = recent\<rparr>,
          label = label\<rparr>)"

section \<open>getMatchProfile and getDataFlag\<close>

record goalsMarket =
  over25 :: real
  under25 :: real

record bttsMarket =
  yes :: real
  no :: real

text \<open>The object \<^verbatim>\<open>lambdas: { home, away }\<close>; its fields are prefixed here because
  \<open>home\<close> is already the field of a form sample.\<close>

record lambdasOut =
  lambdas_home :: real
  lambdas_away :: real

text \<open>\<^verbatim>\<open>confidenceDetails: { ...real, dataQuality, sampleSize, recentFactor }\<close>: the
  object returned by \<open>buildRealConfidence\<close>, extended by three fields copied from the
  context (prefixed here: the context record has fields of the same names).\<close>

record confidenceDetails = realConfidence +
  details_dataQuality :: real
  details_sampleSize :: real
  details_recentFactor :: real

record pick =
  key :: string
  val :: real

datatype matchProfile =
  GOALS_GAME | HOME_AND_UNDER | BALANCED_BTTS | HIGH_VARIANCE | STRONG_HOME | STRONG_AWAY
| NEUTRAL

datatype dataFlag = GOOD_DATA | OK_DATA | LOW_DATA

text \<open>The object \<^verbatim>\<open>out\<close> of \<open>buildPrediction\<close> as it is when \<open>getMatchProfile\<close> reads
  it, and the returned prediction, which has two fields more.\<close>

record predictionOut =
  probHome :: real
  probDraw :: real
  probAway :: real
  mainPick :: "pick jsval"
  confidence :: jsnum
  confidenceDetails :: confidenceDetails
  goals :: goalsMarket
  btts :: bttsMarket
  lambdas :: lambdasOut

record prediction = predictionOut +
  matchProfile :: matchProfile
  dataFlag :: dataFlag

text \<open>
  \<^verbatim>\<open>
  function getMatchProfile(p) {
    const { over25, under25 } = p.goals;
    const h = p.probHome, d = p.probDraw, a = p.probAway;
    const b = p.btts.yes;
    if (over25 >= 60 && b >= 55) return "GOALS_GAME";
    if (h >= 50 && under25 >= 55) return "HOME_AND_UNDER";
    if (Math.abs(h - a) <= 10 && b >= 60) return "BALANCED_BTTS";
    if (h < 40 && a < 40 && d > 25) return "HIGH_VARIANCE";
    if (h >= 55) return "STRONG_HOME";
    if (a >= 55) return "STRONG_AWAY";
    return "NEUTRAL";
  }
  \<close>
\<close>

definition getMatchProfile :: "'a predictionOut_scheme \<Rightarrow> matchProfile" where
  "getMatchProfile p =
     (let over25 = over25 (goals p); under25 = under25 (goals p);
          h = probHome p; d = probDraw p; a = probAway p;
          b = yes (btts p)
      in if over25 \<ge> 60 \<and> b \<ge> 55 then GOALS_GAME
         else if h \<ge> 50 \<and> under25 \<ge> 55 then HOME_AND_UNDER
         else if \<bar>h - a\<bar> \<le> 10 \<and> b \<ge> 60 then BALANCED_BTTS
         else if h < 40 \<and> a < 40 \<and> d > 25 then HIGH_VARIANCE
         else if h \<ge> 55 then STRONG_HOME
         else if a \<ge> 55 then STRONG_AWAY
         else NEUTRAL)"

text \<open>
  \<^verbatim>\<open>
  function getDataFlag(ctx) {
    const dq = ctx.dataQuality;
    const sm = ctx.sampleSize;
    const rc = ctx.recentFactor;
    if (dq >= 0.8 && sm >= 0.6 && rc >= 0.7) return "GOOD_DATA";
    if (dq >= 0.5 && sm >= 0.4) return "OK_DATA";
    return "LOW_DATA";
  }
  \<close>
  The caller passes an object made of these three fields of its context.
\<close>

definition getDataFlag :: "real \<Rightarrow> real \<Rightarrow> real \<Rightarrow> dataFlag" where
  "getDataFlag dq sm rc =
     (if dq \<ge> 0.8 \<and> sm \<ge> 0.6 \<and> rc \<ge> 0.7 then GOOD_DATA
      else if dq \<ge> 0.5 \<and> sm \<ge> 0.4 then OK_DATA
      else LOW_DATA)"

section \<open>buildPrediction\<close>

text \<open>
  The body of the double loop over the score lines \<open>(h, a)\<close>:
  \<^verbatim>\<open>
      const p = pH[h] * pA[a];
      if (h > a) wH += p;
      else if (h === a) wD += p;
      else wA += p;
      if (h + a >= 3) ov += p;
      if (h > 0 && a > 0) b += p;
  \<close>
  The five accumulators are the state.  Both arrays have \<open>max + 1\<close> elements and the
  loops run over \<open>0..max\<close>, so every read is in range.
\<close>

definition cell ::
  "real list \<Rightarrow> real list \<Rightarrow> nat \<Rightarrow> nat \<Rightarrow>
   real \<times> real \<times> real \<times> real \<times> real \<Rightarrow> real \<times> real \<times> real \<times> real \<times> real" where
  "cell pH pA h a acc =
     (case acc of (wH, wD, wA, ov, b) \<Rightarrow>
        let p = pH ! h * pA ! a;
            (wH, wD, wA) = (if h > a then (wH + p, wD, wA)
                            else if h = a then (wH, wD + p, wA)
                            else (wH, wD, wA + p));
            ov = (if h + a \<ge> 3 then ov + p else ov);
            b = (if h > 0 \<and> a > 0 then b + p else b)
        in (wH, wD, wA, ov, b))"

definition scoreGrid ::
  "nat \<Rightarrow> real list \<Rightarrow> real list \<Rightarrow> real \<times> real \<times> real \<times> real \<times> real" where
  "scoreGrid maxGoals pH pA =
     fold (\<lambda>h acc. fold (\<lambda>a acc. cell pH pA h a acc) [0..<Suc maxGoals] acc)
          [0..<Suc maxGoals] (0, 0, 0, 0, 0)"

datatype jserror = TypeError

text \<open>
  \<^verbatim>\<open>
  function buildPrediction(lambdaHome, lambdaAway, ctx) {
    const max = 7;
    const pH = [];
    const pA = [];
    for (let k = 0; k <= max; k++) {
      pH[k] = poissonPMF(lambdaHome, k);
      pA[k] = poissonPMF(lambdaAway, k);
    }
    let wH = 0, wD = 0, wA = 0, ov = 0, b = 0;
    for (let h = 0; h <= max; h++) {
      for (let a = 0; a <= max; a++) { ... }
    }
    const probHome = wH * 100;
    const probDraw = wD * 100;
    const probAway = wA * 100;
    const over25 = ov * 100;
    const bttsYes = b * 100;
    const real = buildRealConfidence({ probHome, probDraw, probAway, context: ctx });
    const confidence = clamp(real.percent, 25, 75);
    const out = {
      probHome, probDraw, probAway,
      mainPick: [
        { key: "HOME", val: probHome },
        { key: "DRAW", val: probDraw },
        { key: "AWAY", val: probAway }
      ].sort((a, b2) => b2.val - a.val).key,
      confidence,
      confidenceDetails: { ...real, dataQuality: ctx.dataQuality,
        sampleSize: ctx.sampleSize, recentFactor: ctx.recentFactor },
      goals: { over25, under25: 100 - over25 },
      btts: { yes: bttsYes, no: 100 - bttsYes },
      lambdas: { home: Number(lambdaHome.toFixed(2)), away: Number(lambdaAway.toFixed(2)) }
    };
    out.matchProfile = getMatchProfile(out);
    out.dataFlag = getDataFlag({ dataQuality: ctx.dataQuality,
      sampleSize: ctx.sampleSize, recentFactor: ctx.recentFactor });
    return out;
  }
  \<close>
  \<open>mainPick\<close> reads the property \<^verbatim>\<open>key\<close> of the sorted array, not of its first
  element.  With a missing \<open>ctx\<close> the read \<^verbatim>\<open>ctx.dataQuality\<close> throws a TypeError.
  The local \<^verbatim>\<open>max\<close> is \<open>maxGoals\<close> and the local \<^verbatim>\<open>real\<close> is \<open>realc\<close> here.
\<close>

definition buildPrediction ::
  "real \<Rightarrow> real \<Rightarrow> matchContext option \<Rightarrow> jserror + prediction" where
  "buildPrediction lambdaHome lambdaAway ctx =
     (let maxGoals = 7;
          pH = map (\<lambda>k. poissonPMF lambdaHome k) [0..<Suc maxGoals];
          pA = map (\<lambda>k. poissonPMF lambdaAway k) [0..<Suc maxGoals];
          (wH, wD, wA, ov, b) = scoreGrid maxGoals pH pA;
          probHome = wH * 100;
          probDraw = wD * 100;
          probAway = wA * 100;
          over25 = ov * 100;
          bttsYes = b * 100;
          realc = buildRealConfidence probHome probDraw probAway ctx;
          confidence = clamp_js (percent realc) 25 75
      in case ctx of
           None \<Rightarrow> Inl TypeError
         | Some c \<Rightarrow>
             let out = \<lparr>probHome = probHome,
                        probDraw = probDraw,
                        probAway = probAway,
                        mainPick =
                          arrayGet
                            (sort_cmp (\<lambda>a b2. val b2 - val a)
                               [\<lparr>key = ''HOME'', val = probHome\<rparr>,
                                \<lparr>key = ''DRAW'', val = probDraw\<rparr>,
                                \<lparr>key = ''AWAY'', val = probAway\<rparr>])
                            (Named ''key''),
                        confidence = confidence,
                        confidenceDetails =
                          \<lparr>percent = percent realc,
                           components = components realc,
                           label = label realc,
                           details_dataQuality = dataQuality c,
                           details_sampleSize = sampleSize c,
                           details_recentFactor = recentFactor c\<rparr>,
                        goals = \<lparr>over25 = over25, under25 = 100 - over25\<rparr>,
                        btts = \<lparr>yes = bttsYes, no = 100 - bttsYes\<rparr>,
                        lambdas = \<lparr>lambdas_home = toFixed2 lambdaHome,
                                   lambdas_away = toFixed2 lambdaAway\<rparr>\<rparr>
             in Inr (predictionOut.extend out
                       \<lparr>matchProfile = getMatchProfile out,
                        dataFlag = getDataFlag (dataQuality c) (sampleSize c) (recentFactor c)\<rparr>))"

section \<open>buildPredictionForFixture\<close>

text \<open>
  A team's season statistics as the function reads them: \<^verbatim>\<open>fixtures?.played?.home\<close>,
  \<^verbatim>\<open>goals?.for?.total?.home\<close> and so on.  A chain with a missing link is
  \<^verbatim>\<open>undefined\<close>, here \<open>None\<close>, and \<^verbatim>\<open>|| 0\<close> turns it (and 0) into 0.
\<close>

record teamStats =
  fixtures_played_home :: "real option"
  fixtures_played_away :: "real option"
  fixtures_played_total :: "real option"
  goals_for_total_home :: "real option"
  goals_for_total_away :: "real option"
  goals_against_total_home :: "real option"
  goals_against_total_away :: "real option"

definition orZeroOpt :: "real option \<Rightarrow> real" where
  "orZeroOpt x = (case x of None \<Rightarrow> 0 | Some v \<Rightarrow> orZero v)"

record competition =
  apiLeagueId :: nat
  season :: nat

text \<open>
  \<open>getTeamStats\<close> and \<open>getTeamRecentForm\<close> ask the statistics provider (or their
  cache) and catch every error themselves: each returns the data or \<^verbatim>\<open>null\<close>.  They
  are parameters of the model, as functions of league, season and team; the
  competition \<^verbatim>\<open>comp\<close> is \<open>compt\<close> here.  \<open>homeId\<close> and
  \<open>awayId\<close> are the team identifiers \<^verbatim>\<open>f.teams?.home?.id\<close> and \<^verbatim>\<open>f.teams?.away?.id\<close>
  of the fixture, \<open>None\<close> when missing; the test \<^verbatim>\<open>home && away\<close> also fails for the
  identifier 0.  The statements inside \<^verbatim>\<open>try\<close> cannot throw once the four lookups
  have returned, so the \<^verbatim>\<open>catch\<close> branch has no counterpart.
  \<^verbatim>\<open>
  async function buildPredictionForFixture(comp, f) {
    const home = f.teams?.home?.id;
    const away = f.teams?.away?.id;
    let lH = 1.35;
    let lA = 1.25;
    let ctx = { homeMatchesTotal: 0, awayMatchesTotal: 0, homeRecentMatches: 0,
                awayRecentMatches: 0, dataQuality: 0.3, sampleSize: 0.3, recentFactor: 0.3 };
    if (home && away) {
      try {
        const [stH, stA, rH, rA] = await Promise.all([
          getTeamStats(comp.apiLeagueId, comp.season, home),
          getTeamStats(comp.apiLeagueId, comp.season, away),
          getTeamRecentForm(comp.apiLeagueId, comp.season, home),
          getTeamRecentForm(comp.apiLeagueId, comp.season, away) ]);
        if (stH && stA) {
          const hP = stH.fixtures?.played?.home || 0;
          const hGF = stH.goals?.for?.total?.home || 0;
          const hGA = stH.goals?.against?.total?.home || 0;
          const aP = stA.fixtures?.played?.away || 0;
          const aGF = stA.goals?.for?.total?.away || 0;
          const aGA = stA.goals?.against?.total?.away || 0;
          const hAvgF = hP ? hGF / hP : 1.4;
          const hAvgA = hP ? hGA / hP : 1.2;
          const aAvgF = aP ? aGF / aP : 1.3;
          const aAvgA = aP ? aGA / aP : 1.2;
          lH = (hAvgF + aAvgA) / 2;
          lA = (aAvgF + hAvgA) / 2;
          lH *= 1.1;
          lA *= 0.95;
          lH = clamp(lH, 0.4, 3.2);
          lA = clamp(lA, 0.4, 3.2);
          const fH = computeFormFactor(rH);
          const fA = computeFormFactor(rA);
          lH *= fH.attack * fA.defense;
          lA *= fA.attack * fH.defense;
          lH = clamp(lH, 0.4, 3.2);
          lA = clamp(lA, 0.4, 3.2);
          ctx.homeMatchesTotal = stH.fixtures?.played?.total || 0;
          ctx.awayMatchesTotal = stA.fixtures?.played?.total || 0;
          ctx.homeRecentMatches = fH.matches;
          ctx.awayRecentMatches = fA.matches;
          ctx.dataQuality = ctx.homeMatchesTotal >= 5 && ctx.awayMatchesTotal >= 5 ? 1
            : ctx.homeMatchesTotal >= 3 && ctx.awayMatchesTotal >= 3 ? 0.7 : 0.4;
          ctx.sampleSize = Math.min(1, (ctx.homeMatchesTotal + ctx.awayMatchesTotal) / 40);
          ctx.recentFactor = fH.matches >= 5 && fA.matches >= 5 ? 1
            : fH.matches >= 3 && fA.matches >= 3 ? 0.7
            : fH.matches >= 1 && fA.matches >= 1 ? 0.5 : 0.3;
        }
      } catch (e) { console.error("prediction context error:", e.message); }
    }
    return buildPrediction(lH, lA, ctx);
  }
  \<close>
\<close>

definition fallbackContext :: matchContext where
  "fallbackContext =
     \<lparr>homeMatchesTotal = 0, awayMatchesTotal = 0, homeRecentMatches = 0,
      awayRecentMatches = 0, dataQuality = 0.3, sampleSize = 0.3, recentFactor = 0.3\<rparr>"

definition truthyId :: "nat option \<Rightarrow> bool" where
  "truthyId i = (case i of None \<Rightarrow> False | Some n \<Rightarrow> n \<noteq> 0)"

definition estimateFromStats ::
  "teamStats \<Rightarrow> teamStats \<Rightarrow> formSample list option \<Rightarrow> formSample list option \<Rightarrow>
   real \<times> real \<times> matchContext" where
  "estimateFromStats stH stA rH rA =
     (let hP = orZeroOpt (fixtures_played_home stH);
          hGF = orZeroOpt (goals_for_total_home stH);
          hGA = orZeroOpt (goals_against_total_home stH);
          aP = orZeroOpt (fixtures_played_away stA);
          aGF = orZeroOpt (goals_for_total_away stA);
          aGA = orZeroOpt (goals_against_total_away stA);
          hAvgF = (if hP \<noteq> 0 then hGF / hP else 1.4);
          hAvgA = (if hP \<noteq> 0 then hGA / hP else 1.2);
          aAvgF = (if aP \<noteq> 0 then aGF / aP else 1.3);
          aAvgA = (if aP \<noteq> 0 then aGA / aP else 1.2);
          lH = (hAvgF + aAvgA) / 2;
          lA = (aAvgF + hAvgA) / 2;
          lH = lH * 1.1;
          lA = lA * 0.95;
          lH = clamp lH 0.4 3.2;
          lA = clamp lA 0.4 3.2;
          fH = computeFormFactor rH;
          fA = computeFormFactor rA;
          lH = lH * (attack fH * defense fA);
          lA = lA * (attack fA * defense fH);
          lH = clamp lH 0.4 3.2;
          lA = clamp lA 0.4 3.2;
          hT = orZeroOpt (fixtures_played_total stH);
          aT = orZeroOpt (fixtures_played_total stA)
      in (lH, lA,
          \<lparr>homeMatchesTotal = hT,
           awayMatchesTotal = aT,
           homeRecentMatches = real (matches fH),
           awayRecentMatches = real (matches fA),
           dataQuality = (if hT \<ge> 5 \<and> aT \<ge> 5 then 1
                          else if hT \<ge> 3 \<and> aT \<ge> 3 then 0.7 else 0.4),
           sampleSize = min 1 ((hT + aT) / 40),
           recentFactor = (if matches fH \<ge> 5 \<and> matches fA \<ge> 5 then 1
                           else if matches fH \<ge> 3 \<and> matches fA \<ge> 3 then 0.7
                           else if matches fH \<ge> 1 \<and> matches fA \<ge> 1 then 0.5
                           else 0.3)\<rparr>))"

definition buildPredictionForFixture ::
  "(nat \<Rightarrow> nat \<Rightarrow> nat \<Rightarrow> teamStats option) \<Rightarrow>
   (nat \<Rightarrow> nat \<Rightarrow> nat \<Rightarrow> formSample list option) \<Rightarrow>
   competition \<Rightarrow> nat option \<Rightarrow> nat option \<Rightarrow> jserror + prediction" where
  "buildPredictionForFixture getTeamStats getTeamRecentForm compt homeId awayId =
     (let (lH, lA, ctx) =
            (if truthyId homeId \<and> truthyId awayId then
               let stH = getTeamStats (apiLeagueId compt) (season compt) (the homeId);
                   stA = getTeamStats (apiLeagueId compt) (season compt) (the awayId);
                   rH = getTeamRecentForm (apiLeagueId compt) (season compt) (the homeId);
                   rA = getTeamRecentForm (apiLeagueId compt) (season compt) (the awayId)
               in (case (stH, stA) of
                     (Some sh, Some sa) \<Rightarrow> estimateFromStats sh sa rH rA
                   | _ \<Rightarrow> (1.35, 1.25, fallbackContext))
             else (1.35, 1.25, fallbackContext))
      in buildPrediction lH lA (Some ctx))"

section \<open>The specification's wording of three operations\<close>

text \<open>The clarity signal in the words of the specification: sort the three
  probabilities descending, take the gap between the top two, divide by the reference
  gap of 40 percentage points, clamp to \<open>[0, 1]\<close>.\<close>

definition clarity_spec :: "real \<Rightarrow> real \<Rightarrow> real \<Rightarrow> real" where
  "clarity_spec h d a =
     (let s = sort_cmp (\<lambda>x y. y - x) [h, d, a]
      in max 0 (min 1 ((s ! 0 - s ! 1) / 40)))"

text \<open>The main pick in the words of the specification: the label of the outcome with
  the greatest probability, ties resolved by the priority HOME, DRAW, AWAY.\<close>

definition mainPick_spec :: "real \<Rightarrow> real \<Rightarrow> real \<Rightarrow> string" where
  "mainPick_spec ph pd pa =
     (if ph \<ge> pd \<and> ph \<ge> pa then ''HOME''
      else if pd \<ge> pa then ''DRAW''
      else ''AWAY'')"

text \<open>The classifier in the words of the specification: seven rules in priority
  order, the first rule whose condition holds gives the tag, and the seventh is the
  default.\<close>

definition classifyMatch_spec ::
  "real \<Rightarrow> real \<Rightarrow> real \<Rightarrow> real \<Rightarrow> real \<Rightarrow> real \<Rightarrow> matchProfile" where
  "classifyMatch_spec ph pd pa ov un bttsYes =
     (case find fst
        [(ov \<ge> 60 \<and> bttsYes \<ge> 55, GOALS_GAME),
         (ph \<ge> 50 \<and> un \<ge> 55, HOME_AND_UNDER),
         (\<bar>ph - pa\<bar> \<le> 10 \<and> bttsYes \<ge> 60, BALANCED_BTTS),
         (ph < 40 \<and> pa < 40 \<and> pd > 25, HIGH_VARIANCE),
         (ph \<ge> 55, STRONG_HOME),
         (pa \<ge> 55, STRONG_AWAY)]
      of Some (c, tag) \<Rightarrow> tag | None \<Rightarrow> NEUTRAL)"

section \<open>Properties\<close>

subsection \<open>factorial and its cache\<close>

text \<open>The loop computes the factorial, and a call that finds its argument in the
  cache returns the same number as a call that does not, provided the cache holds only
  what earlier calls stored; the empty cache of a fresh process does.\<close>

lemma factorial_loop_fact: "1 \<le> n \<Longrightarrow> factorial_loop n = fact n"
proof (induction n)
  case 0
  then show ?case by simp
next
  case (Suc n)
  show ?case
  proof (cases "n = 0")
    case True
    then show ?thesis by (simp add: factorial_loop_def)
  next
    case False
    then have "[2..<Suc (Suc n)] = [2..<Suc n] @ [Suc n]" by simp
    with False Suc.IH show ?thesis
      by (simp add: factorial_loop_def mult.commute)
  qed
qed

lemma factorial_fact: "factorial n = fact n"
proof (cases "n \<le> 1")
  case True
  then have "n = 0 \<or> n = 1" by arith
  then show ?thesis by (auto simp: factorial_def)
next
  case False
  then show ?thesis by (simp add: factorial_def factorial_loop_fact)
qed

lemma factorial_pos: "0 < factorial n"
  by (simp add: factorial_fact)

lemma factorial_memo_value:
  "cache_ok factCache \<Longrightarrow>
   fst (factorial_memo factCache n) = factorial n \<and> cache_ok (snd (factorial_memo factCache n))"
proof -
  assume ok: "cache_ok factCache"
  have upd: "cache_ok (factCache(n \<mapsto> factorial_loop n))" if "\<not> n \<le> 1"
    unfolding cache_ok_def
  proof (intro allI impI)
    fix k v
    assume kv: "(factCache(n \<mapsto> factorial_loop n)) k = Some v"
    show "v = factorial k"
    proof (cases "k = n")
      case True
      with kv that show ?thesis by (simp add: factorial_def)
    next
      case False
      with kv have "factCache k = Some v" by simp
      with ok show ?thesis unfolding cache_ok_def by blast
    qed
  qed
  show ?thesis
  proof (cases "n \<le> 1")
    case True
    with ok show ?thesis by (simp add: factorial_memo_def factorial_def)
  next
    case False
    show ?thesis
    proof (cases "factCache n")
      case None
      with False upd show ?thesis by (simp add: factorial_memo_def factorial_def)
    next
      case (Some v)
      with ok have v: "v = factorial n" by (simp add: cache_ok_def)
      then have "v \<noteq> 0" using factorial_pos [of n] by simp
      with False Some ok v show ?thesis
        by (simp add: factorial_memo_def)
    qed
  qed
qed

lemma cache_ok_empty: "cache_ok Map.empty"
  by (simp add: cache_ok_def)

subsection \<open>The sorted array used as a number\<close>

lemma length_insort_cmp: "length (insort_cmp cmp x xs) = Suc (length xs)"
  by (induction xs) auto

lemma length_sort_cmp: "length (sort_cmp cmp xs) = length xs"
  by (induction xs) (auto simp: sort_cmp_def length_insort_cmp)

lemma arrayToNumber_NaN: "2 \<le> length xs \<Longrightarrow> arrayToNumber xs = NaN"
  by (cases xs rule: arrayToNumber.cases) auto

lemma clarity_NaN: "computeDistributionClarity h d a = NaN"
proof -
  have "arrayToNumber (sort_cmp (\<lambda>x y. y - x) [h, d, a]) = NaN"
    by (rule arrayToNumber_NaN) (simp add: length_sort_cmp)
  then show ?thesis
    by (simp add: computeDistributionClarity_def Let_def)
qed

lemma percent_NaN: "percent (buildRealConfidence ph pd pa ctx) = NaN"
  by (simp add: buildRealConfidence_def clarity_NaN Math_round_def Let_def split: prod.split)

subsection \<open>Shape of the value returned by buildPrediction\<close>

lemma buildPrediction_None: "buildPrediction lH lA None = Inl TypeError"
  by (simp add: buildPrediction_def Let_def case_prod_beta)

lemma buildPrediction_Some:
  "\<exists>p. buildPrediction lH lA (Some c) = Inr p"
  by (simp add: buildPrediction_def Let_def split: prod.split)

lemma confidence_NaN:
  "buildPrediction lH lA (Some c) = Inr p \<Longrightarrow> confidence p = NaN"
  by (auto simp: buildPrediction_def Let_def percent_NaN clamp_js_def predictionOut.extend_def split: prod.splits)

lemma key_not_inherited: "''key'' \<notin> set arrayInherited"
  by (simp add: arrayInherited_def)

lemma mainPick_Undefined:
  "buildPrediction lH lA (Some c) = Inr p \<Longrightarrow> mainPick p = Undefined"
  by (auto simp: buildPrediction_def Let_def predictionOut.extend_def key_not_inherited
      split: prod.splits)

lemma buildPrediction_goals:
  "buildPrediction lH lA ctx = Inr p \<Longrightarrow>
     under25 (goals p) = 100 - over25 (goals p) \<and> no (btts p) = 100 - yes (btts p)"
  by (cases ctx)
     (auto simp: buildPrediction_def Let_def case_prod_beta predictionOut.extend_def)

lemma buildPrediction_details:
  "buildPrediction lH lA (Some c) = Inr p \<Longrightarrow>
     details_dataQuality (confidenceDetails p) = dataQuality c \<and>
     details_sampleSize (confidenceDetails p) = sampleSize c \<and>
     details_recentFactor (confidenceDetails p) = recentFactor c \<and>
     components (confidenceDetails p) = components (buildRealConfidence (probHome p) (probDraw p) (probAway p) (Some c)) \<and>
     lambdas p = \<lparr>lambdas_home = toFixed2 lH, lambdas_away = toFixed2 lA\<rparr> \<and>
     dataFlag p = getDataFlag (dataQuality c) (sampleSize c) (recentFactor c)"
  by (auto simp: buildPrediction_def Let_def case_prod_beta predictionOut.extend_def)

lemma toFixed2_135: "toFixed2 1.35 = 1.35" "toFixed2 1.25 = 1.25"
  by (simp_all add: toFixed2_def)

subsection \<open>Confidence band\<close>

text \<open>
  Claim C1: for every input in the documented domain the confidence percentage of the
  prediction is an integer in the band from 25 to 75.

  The code does not do this.  The clarity signal is \<^verbatim>\<open>NaN\<close> on every input (lemma
  \<open>clarity_NaN\<close>), the weighted score, its rounding and the final \<^verbatim>\<open>clamp(real.percent, 25, 75)\<close> all
  propagate it, and the reported confidence is \<^verbatim>\<open>NaN\<close> for all rates and every
  context: it is no integer and lies in no band.
\<close>

theorem confidence_not_in_band:
  "\<exists>p. buildPrediction lambdaHome lambdaAway (Some c) = Inr p
       \<and> confidence p = NaN
       \<and> percent (confidenceDetails p) = NaN
       \<and> \<not> (\<exists>n::int. confidence p = Num (of_int n) \<and> 25 \<le> n \<and> n \<le> 75)"
proof -
  obtain p where p: "buildPrediction lambdaHome lambdaAway (Some c) = Inr p"
    using buildPrediction_Some by blast
  have "confidence p = NaN" using confidence_NaN [OF p] .
  moreover have "percent (confidenceDetails p) = NaN"
    using p by (auto simp: buildPrediction_def Let_def case_prod_beta
        predictionOut.extend_def percent_NaN)
  ultimately show ?thesis using p by simp
qed

subsection \<open>Clarity\<close>

lemma clarity_spec_example: "clarity_spec 60 25 15 = 7/8"
  by (simp add: clarity_spec_def sort_cmp_def)

text \<open>
  Claim C2: for every triple of outcome probabilities the clarity signal is the gap
  between the two largest of them, divided by the reference gap of 40 percentage
  points and clamped to the interval from 0 to 1.

  The code does not do this.  It subtracts the sorted array from itself; an array of
  three numbers converts to \<^verbatim>\<open>NaN\<close>, and so the result is \<^verbatim>\<open>NaN\<close> for every triple,
  never the number the claim describes (7/8 at the probabilities 60, 25, 15).
\<close>

theorem clarity_is_NaN:
  "computeDistributionClarity h d a = NaN
   \<and> computeDistributionClarity h d a \<noteq> Num (clarity_spec h d a)
   \<and> computeDistributionClarity 60 25 15 = NaN \<and> clarity_spec 60 25 15 = 7 / 8"
  by (simp add: clarity_NaN clarity_spec_example)

subsection \<open>Main pick\<close>

text \<open>The first element of the sorted array is the outcome the specification
  describes; the code reads \<^verbatim>\<open>key\<close> from the array instead.\<close>

lemma sorted_first_pick:
  "arrayGet (sort_cmp (\<lambda>a b2. val b2 - val a)
       [\<lparr>key = ''HOME'', val = ph\<rparr>, \<lparr>key = ''DRAW'', val = pd\<rparr>, \<lparr>key = ''AWAY'', val = pa\<rparr>])
     (Index 0) = ObjV \<lparr>key = mainPick_spec ph pd pa, val = max ph (max pd pa)\<rparr>"
  by (simp add: sort_cmp_def mainPick_spec_def)

text \<open>
  Claim C3: the main pick of every prediction is the label HOME, DRAW or AWAY of the
  outcome with the greatest probability, ties resolved by the priority HOME, DRAW,
  AWAY.

  The code does not do this.  \<^verbatim>\<open>mainPick\<close> is the property \<^verbatim>\<open>key\<close> of the sorted
  array, which an array does not have: the field is \<^verbatim>\<open>undefined\<close> in every prediction,
  no label at all.
\<close>

theorem mainPick_is_undefined:
  "\<exists>p. buildPrediction lambdaHome lambdaAway (Some c) = Inr p
       \<and> mainPick p = Undefined
       \<and> mainPick p \<noteq> StrV (mainPick_spec (probHome p) (probDraw p) (probAway p))"
proof -
  obtain p where p: "buildPrediction lambdaHome lambdaAway (Some c) = Inr p"
    using buildPrediction_Some by blast
  then show ?thesis using mainPick_Undefined [OF p] by simp
qed

subsection \<open>Complementary markets\<close>

text \<open>
  Claim C5: in every prediction over25 + under25 is exactly 100 and bttsYes + bttsNo is
  exactly 100, because the second member of each pair is computed as 100 minus the
  first.  (Exactness is that of the model's arithmetic.)
\<close>

theorem complementary_markets:
  "buildPrediction lH lA ctx = Inr p \<Longrightarrow>
     over25 (goals p) + under25 (goals p) = 100 \<and> yes (btts p) + no (btts p) = 100 \<and>
     under25 (goals p) = 100 - over25 (goals p) \<and> no (btts p) = 100 - yes (btts p)"
  using buildPrediction_goals [of lH lA ctx p] by simp

theorem complementary_markets_witness:
  "\<exists>p. buildPrediction 1.35 1.25 (Some fallbackContext) = Inr p \<and>
       over25 (goals p) + under25 (goals p) = 100 \<and> yes (btts p) + no (btts p) = 100"
proof -
  obtain p where p: "buildPrediction 1.35 1.25 (Some fallbackContext) = Inr p"
    using buildPrediction_Some by blast
  from complementary_markets [OF p] p show ?thesis by blast
qed

subsection \<open>Fallback without season statistics\<close>

lemma fixture_fallback:
  "getTeamStats (apiLeagueId compt) (season compt) h = None \<or>
   getTeamStats (apiLeagueId compt) (season compt) a = None \<Longrightarrow>
   buildPredictionForFixture getTeamStats getTeamRecentForm compt (Some h) (Some a)
     = buildPrediction 1.35 1.25 (Some fallbackContext)"
  by (auto simp: buildPredictionForFixture_def Let_def split: option.splits)

lemma fixture_no_ids:
  "\<not> (truthyId homeId \<and> truthyId awayId) \<Longrightarrow>
   buildPredictionForFixture getTeamStats getTeamRecentForm compt homeId awayId
     = buildPrediction 1.35 1.25 (Some fallbackContext)"
  by (auto simp: buildPredictionForFixture_def Let_def)

text \<open>
  Claim C7: whenever the season statistics lookup of either team yields no data, the
  prediction is still produced, with the neutral rates 1.35 and 1.25 and a context
  whose dataQuality, sampleSize and recentFactor are all 0.3; no error is raised.
\<close>

theorem fallback_when_stats_missing:
  assumes "getTeamStats (apiLeagueId compt) (season compt) h = None \<or>
           getTeamStats (apiLeagueId compt) (season compt) a = None"
  shows "\<exists>p. buildPredictionForFixture getTeamStats getTeamRecentForm compt (Some h) (Some a) = Inr p
           \<and> buildPrediction 1.35 1.25 (Some fallbackContext) = Inr p
           \<and> lambdas p = \<lparr>lambdas_home = 1.35, lambdas_away = 1.25\<rparr>
           \<and> details_dataQuality (confidenceDetails p) = 0.3
           \<and> details_sampleSize (confidenceDetails p) = 0.3
           \<and> details_recentFactor (confidenceDetails p) = 0.3
           \<and> dataQuality fallbackContext = 0.3 \<and> sampleSize fallbackContext = 0.3
           \<and> recentFactor fallbackContext = 0.3"
proof -
  obtain p where p: "buildPrediction 1.35 1.25 (Some fallbackContext) = Inr p"
    using buildPrediction_Some by blast
  have "buildPredictionForFixture getTeamStats getTeamRecentForm compt (Some h) (Some a) = Inr p"
    using assms p
      fixture_fallback [where getTeamStats = getTeamStats and compt = compt and h = h and a = a]
    by simp
  moreover have "lambdas p = \<lparr>lambdas_home = 1.35, lambdas_away = 1.25\<rparr>"
    using buildPrediction_details [OF p] toFixed2_135 by simp
  moreover have "details_dataQuality (confidenceDetails p) = 0.3"
    "details_sampleSize (confidenceDetails p) = 0.3"
    "details_recentFactor (confidenceDetails p) = 0.3"
    using buildPrediction_details [OF p] by (simp_all add: fallbackContext_def)
  ultimately show ?thesis using p by (simp add: fallbackContext_def)
qed

theorem fallback_when_stats_missing_witness:
  "\<exists>p. buildPredictionForFixture (\<lambda>league season team. None) (\<lambda>league season team. None)
          \<lparr>apiLeagueId = 39, season = 2024\<rparr> (Some 33) (Some 34) = Inr p
       \<and> lambdas p = \<lparr>lambdas_home = 1.35, lambdas_away = 1.25\<rparr>
       \<and> details_dataQuality (confidenceDetails p) = 0.3"
  using fallback_when_stats_missing
    [where getTeamStats = "\<lambda>league season team. None"
       and getTeamRecentForm = "\<lambda>league season team. None"
       and compt = "\<lparr>apiLeagueId = 39, season = 2024\<rparr>" and h = 33 and a = 34]
  by auto

subsection \<open>Match profile\<close>

lemma first_match_chain:
  "(case find fst [(c1, t1), (c2, t2), (c3, t3), (c4, t4), (c5, t5), (c6, t6)]
    of Some (c, tag) \<Rightarrow> tag | None \<Rightarrow> t7)
   = (if c1 then t1 else if c2 then t2 else if c3 then t3 else if c4 then t4
      else if c5 then t5 else if c6 then t6 else t7)"
  by simp

lemma getMatchProfile_refines:
  "getMatchProfile p =
     classifyMatch_spec (probHome p) (probDraw p) (probAway p)
       (over25 (goals p)) (under25 (goals p)) (yes (btts p))"
  unfolding getMatchProfile_def classifyMatch_spec_def Let_def first_match_chain
  by (rule refl)

lemma getMatchProfile_range:
  "getMatchProfile p \<in> {GOALS_GAME, HOME_AND_UNDER, BALANCED_BTTS, HIGH_VARIANCE,
                            STRONG_HOME, STRONG_AWAY, NEUTRAL}"
  by (cases "getMatchProfile p") simp_all

lemma getMatchProfile_first_rule:
  "over25 (goals p) \<ge> 60 \<Longrightarrow> yes (btts p) \<ge> 55 \<Longrightarrow> getMatchProfile p = GOALS_GAME"
  by (simp add: getMatchProfile_def)

text \<open>
  Claim C8: the classifier is total, returns exactly one of the seven tags, and
  evaluates its rules in the specified priority order with the first match winning;
  in particular a prediction that satisfies both the GOALS_GAME condition
  (over25 at least 60 and bttsYes at least 55) and the STRONG_HOME condition (probHome
  at least 55) is classified GOALS_GAME.
\<close>

theorem getMatchProfile_classify:
  "getMatchProfile p =
     classifyMatch_spec (probHome p) (probDraw p) (probAway p)
       (over25 (goals p)) (under25 (goals p)) (yes (btts p))
   \<and> getMatchProfile p \<in> {GOALS_GAME, HOME_AND_UNDER, BALANCED_BTTS, HIGH_VARIANCE,
                            STRONG_HOME, STRONG_AWAY, NEUTRAL}
   \<and> (over25 (goals p) \<ge> 60 \<and> yes (btts p) \<ge> 55 \<and> probHome p \<ge> 55
        \<longrightarrow> getMatchProfile p = GOALS_GAME)"
  using getMatchProfile_refines [of p] getMatchProfile_range [of p]
    getMatchProfile_first_rule [of p]
  by blast

theorem getMatchProfile_classify_witness:
  "getMatchProfile
     \<lparr>probHome = 60, probDraw = 22, probAway = 18, mainPick = Undefined, confidence = NaN,
      confidenceDetails =
        \<lparr>percent = NaN,
         components = \<lparr>dataQ = 1, sample = 1, clarity = NaN, recent = 1\<rparr>,
         label = Scazuta,
         details_dataQuality = 1, details_sampleSize = 1, details_recentFactor = 1\<rparr>,
      goals = \<lparr>over25 = 70, under25 = 30\<rparr>,
      btts = \<lparr>yes = 60, no = 40\<rparr>,
      lambdas = \<lparr>lambdas_home = 2.4, lambdas_away = 1.3\<rparr>\<rparr> = GOALS_GAME"
proof -
  let ?p = "\<lparr>probHome = 60, probDraw = 22, probAway = 18, mainPick = Undefined, confidence = NaN,
      confidenceDetails =
        \<lparr>percent = NaN,
         components = \<lparr>dataQ = 1, sample = 1, clarity = NaN, recent = 1\<rparr>,
         label = Scazuta,
         details_dataQuality = 1, details_sampleSize = 1, details_recentFactor = 1\<rparr>,
      goals = \<lparr>over25 = 70, under25 = 30\<rparr>,
      btts = \<lparr>yes = 60, no = 40\<rparr>,
      lambdas = \<lparr>lambdas_home = 2.4, lambdas_away = 1.3\<rparr>\<rparr>"
  have "over25 (goals ?p) \<ge> 60 \<and> yes (btts ?p) \<ge> 55 \<and> probHome ?p \<ge> 55"
    by simp
  with getMatchProfile_classify [of ?p] show ?thesis by blast
qed

subsection \<open>Form factor of an empty sample\<close>

text \<open>
  Claim C9: for an empty or absent sequence of recent-form samples the form-factor
  computation returns exactly the neutral result: attack 1, defense 1 and a sample
  count of 0.
\<close>

theorem computeFormFactor_empty:
  "computeFormFactor None = \<lparr>attack = 1, defense = 1, matches = 0\<rparr> \<and>
   computeFormFactor (Some []) = \<lparr>attack = 1, defense = 1, matches = 0\<rparr>"
  by (simp add: computeFormFactor_def)

subsection \<open>The confidence scorer recomputes its components\<close>

lemma buildRealConfidence_ignores:
  "buildRealConfidence ph pd pa (Some (c\<lparr>dataQuality := dq, sampleSize := ss, recentFactor := rf\<rparr>))
   = buildRealConfidence ph pd pa (Some c)"
  by (simp add: buildRealConfidence_def)

lemma buildRealConfidence_from_counts:
  "dataQ (components (buildRealConfidence ph pd pa (Some c)))
     = (if homeMatchesTotal c \<ge> 5 \<and> awayMatchesTotal c \<ge> 5 then 1
        else if homeMatchesTotal c \<ge> 3 \<and> awayMatchesTotal c \<ge> 3 then 0.7
        else 0.4)"
  "sample (components (buildRealConfidence ph pd pa (Some c)))
     = min 1 ((homeMatchesTotal c + awayMatchesTotal c) / 40)"
  "recent (components (buildRealConfidence ph pd pa (Some c)))
     = (if min (homeRecentMatches c) (awayRecentMatches c) \<ge> 5 then 1
        else if min (homeRecentMatches c) (awayRecentMatches c) \<ge> 3 then 0.7
        else if min (homeRecentMatches c) (awayRecentMatches c) \<ge> 1 then 0.5
        else 0.3)"
  by (simp_all add: buildRealConfidence_def orZero_def Let_def)

lemma buildRealConfidence_degraded:
  "components (buildRealConfidence ph pd pa
      (Some (c\<lparr>homeMatchesTotal := 0, awayMatchesTotal := 0,
               homeRecentMatches := 0, awayRecentMatches := 0\<rparr>)))
   = \<lparr>dataQ = 0.4, sample = 0, clarity = NaN, recent = 0.3\<rparr>"
  by (simp add: buildRealConfidence_def orZero_def clarity_NaN Let_def)

text \<open>
  Claim C10: the confidence scorer ignores the fields dataQuality, sampleSize and
  recentFactor of the context it receives and recomputes its components from the raw
  match counts: dataQ is 1 when both totals are at least 5, 0.7 when both are at least
  3 and 0.4 otherwise; sample is the sum of the totals over 40, capped at 1; recent is
  1, 0.7, 0.5 or 0.3 as the smaller recent count is at least 5, 3, 1 or below 1.  For
  the degraded context, with no matches and no recent matches on either side, the
  components are dataQ 0.4, sample 0 and recent 0.3, not the three values 0.3 stored
  in the context.
\<close>

theorem confidence_components_recomputed:
  "buildRealConfidence ph pd pa
      (Some (c\<lparr>dataQuality := dq, sampleSize := ss, recentFactor := rf\<rparr>))
     = buildRealConfidence ph pd pa (Some c)
   \<and> dataQ (components (buildRealConfidence ph pd pa (Some c)))
       = (if homeMatchesTotal c \<ge> 5 \<and> awayMatchesTotal c \<ge> 5 then 1
          else if homeMatchesTotal c \<ge> 3 \<and> awayMatchesTotal c \<ge> 3 then 0.7
          else 0.4)
   \<and> sample (components (buildRealConfidence ph pd pa (Some c)))
       = min 1 ((homeMatchesTotal c + awayMatchesTotal c) / 40)
   \<and> recent (components (buildRealConfidence ph pd pa (Some c)))
       = (if min (homeRecentMatches c) (awayRecentMatches c) \<ge> 5 then 1
          else if min (homeRecentMatches c) (awayRecentMatches c) \<ge> 3 then 0.7
          else if min (homeRecentMatches c) (awayRecentMatches c) \<ge> 1 then 0.5
          else 0.3)
   \<and> components (buildRealConfidence ph pd pa
        (Some (c\<lparr>homeMatchesTotal := 0, awayMatchesTotal := 0,
                 homeRecentMatches := 0, awayRecentMatches := 0\<rparr>)))
       = \<lparr>dataQ = 0.4, sample = 0, clarity = NaN, recent = 0.3\<rparr>
   \<and> (\<exists>p. buildPrediction 1.35 1.25 (Some fallbackContext) = Inr p
          \<and> dataQ (components (confidenceDetails p)) = 0.4
          \<and> sample (components (confidenceDetails p)) = 0
          \<and> recent (components (confidenceDetails p)) = 0.3
          \<and> details_dataQuality (confidenceDetails p) = 0.3
          \<and> details_sampleSize (confidenceDetails p) = 0.3
          \<and> details_recentFactor (confidenceDetails p) = 0.3)"
proof (intro conjI)
  show "buildRealConfidence ph pd pa
      (Some (c\<lparr>dataQuality := dq, sampleSize := ss, recentFactor := rf\<rparr>))
     = buildRealConfidence ph pd pa (Some c)"
    by (rule buildRealConfidence_ignores)
  show "dataQ (components (buildRealConfidence ph pd pa (Some c)))
       = (if homeMatchesTotal c \<ge> 5 \<and> awayMatchesTotal c \<ge> 5 then 1
          else if homeMatchesTotal c \<ge> 3 \<and> awayMatchesTotal c \<ge> 3 then 0.7
          else 0.4)"
    by (rule buildRealConfidence_from_counts)
  show "sample (components (buildRealConfidence ph pd pa (Some c)))
       = min 1 ((homeMatchesTotal c + awayMatchesTotal c) / 40)"
    by (rule buildRealConfidence_from_counts)
  show "recent (components (buildRealConfidence ph pd pa (Some c)))
       = (if min (homeRecentMatches c) (awayRecentMatches c) \<ge> 5 then 1
          else if min (homeRecentMatches c) (awayRecentMatches c) \<ge> 3 then 0.7
          else if min (homeRecentMatches c) (awayRecentMatches c) \<ge> 1 then 0.5
          else 0.3)"
    by (rule buildRealConfidence_from_counts)
  show "components (buildRealConfidence ph pd pa
        (Some (c\<lparr>homeMatchesTotal := 0, awayMatchesTotal := 0,
                 homeRecentMatches := 0, awayRecentMatches := 0\<rparr>)))
       = \<lparr>dataQ = 0.4, sample = 0, clarity = NaN, recent = 0.3\<rparr>"
    by (rule buildRealConfidence_degraded)
  obtain p where p: "buildPrediction 1.35 1.25 (Some fallbackContext) = Inr p"
    using buildPrediction_Some by blast
  have fb: "fallbackContext = fallbackContext\<lparr>homeMatchesTotal := 0, awayMatchesTotal := 0,
                 homeRecentMatches := 0, awayRecentMatches := 0\<rparr>"
    by (simp add: fallbackContext_def)
  have "components (confidenceDetails p) = \<lparr>dataQ = 0.4, sample = 0, clarity = NaN, recent = 0.3\<rparr>"
    using buildPrediction_details [OF p] buildRealConfidence_degraded [of _ _ _ fallbackContext] fb
    by simp
  moreover have "details_dataQuality (confidenceDetails p) = 0.3"
    "details_sampleSize (confidenceDetails p) = 0.3"
    "details_recentFactor (confidenceDetails p) = 0.3"
    using buildPrediction_details [OF p] by (simp_all add: fallbackContext_def)
  ultimately show "\<exists>p. buildPrediction 1.35 1.25 (Some fallbackContext) = Inr p
          \<and> dataQ (components (confidenceDetails p)) = 0.4
          \<and> sample (components (confidenceDetails p)) = 0
          \<and> recent (components (confidenceDetails p)) = 0.3
          \<and> details_dataQuality (confidenceDetails p) = 0.3
          \<and> details_sampleSize (confidenceDetails p) = 0.3
          \<and> details_recentFactor (confidenceDetails p) = 0.3"
    using p by simp
qed

subsection \<open>The double loop as sums\<close>

text \<open>The five accumulators after the loops are double sums over the score lines
  \<open>(h, a)\<close> with \<open>h, a \<le> max\<close>.\<close>

lemma cell_sums:
  "cell pH pA h a (w1, w2, w3, w4, w5) =
     (w1 + (if a < h then pH ! h * pA ! a else 0),
      w2 + (if h = a then pH ! h * pA ! a else 0),
      w3 + (if h < a then pH ! h * pA ! a else 0),
      w4 + (if 3 \<le> h + a then pH ! h * pA ! a else 0),
      w5 + (if 0 < h \<and> 0 < a then pH ! h * pA ! a else 0))"
  by (simp add: cell_def Let_def)

lemma inner_loop_sums:
  "fold (\<lambda>a acc. cell pH pA h a acc) [0..<n] (w1, w2, w3, w4, w5) =
     (w1 + (\<Sum>a<n. if a < h then pH ! h * pA ! a else 0),
      w2 + (\<Sum>a<n. if h = a then pH ! h * pA ! a else 0),
      w3 + (\<Sum>a<n. if h < a then pH ! h * pA ! a else 0),
      w4 + (\<Sum>a<n. if 3 \<le> h + a then pH ! h * pA ! a else 0),
      w5 + (\<Sum>a<n. if 0 < h \<and> 0 < a then pH ! h * pA ! a else 0))"
proof (induction n)
  case 0
  show ?case by simp
next
  case (Suc n)
  show ?case
    unfolding upt_Suc_append [OF le0] fold_append comp_def Suc.IH
    by (simp add: cell_sums)
qed

lemma outer_loop_sums:
  "fold (\<lambda>h acc. fold (\<lambda>a acc. cell pH pA h a acc) [0..<m] acc) [0..<n] (w1, w2, w3, w4, w5) =
     (w1 + (\<Sum>h<n. \<Sum>a<m. if a < h then pH ! h * pA ! a else 0),
      w2 + (\<Sum>h<n. \<Sum>a<m. if h = a then pH ! h * pA ! a else 0),
      w3 + (\<Sum>h<n. \<Sum>a<m. if h < a then pH ! h * pA ! a else 0),
      w4 + (\<Sum>h<n. \<Sum>a<m. if 3 \<le> h + a then pH ! h * pA ! a else 0),
      w5 + (\<Sum>h<n. \<Sum>a<m. if 0 < h \<and> 0 < a then pH ! h * pA ! a else 0))"
proof (induction n)
  case 0
  show ?case by simp
next
  case (Suc n)
  show ?case
    unfolding upt_Suc_append [OF le0] fold_append comp_def Suc.IH
    by (simp add: inner_loop_sums)
qed

lemma scoreGrid_sums:
  "scoreGrid n pH pA =
     ((\<Sum>h<Suc n. \<Sum>a<Suc n. if a < h then pH ! h * pA ! a else 0),
      (\<Sum>h<Suc n. \<Sum>a<Suc n. if h = a then pH ! h * pA ! a else 0),
      (\<Sum>h<Suc n. \<Sum>a<Suc n. if h < a then pH ! h * pA ! a else 0),
      (\<Sum>h<Suc n. \<Sum>a<Suc n. if 3 \<le> h + a then pH ! h * pA ! a else 0),
      (\<Sum>h<Suc n. \<Sum>a<Suc n. if 0 < h \<and> 0 < a then pH ! h * pA ! a else 0))"
  unfolding scoreGrid_def outer_loop_sums by simp

lemma pmf_table_nth:
  "k < Suc n \<Longrightarrow> map (\<lambda>k. poissonPMF lam k) [0..<Suc n] ! k = poissonPMF lam k"
proof -
  assume k: "k < Suc n"
  then have "k < length [0..<Suc n]" by (simp del: upt_Suc)
  then have "map (\<lambda>k. poissonPMF lam k) [0..<Suc n] ! k = poissonPMF lam ([0..<Suc n] ! k)"
    by (rule nth_map)
  also have "[0..<Suc n] ! k = k"
    using k nth_upt [of 0 k "Suc n"] by (simp del: upt_Suc)
  finally show ?thesis .
qed

lemma buildPrediction_probs:
  assumes "buildPrediction lH lA (Some c) = Inr p"
  shows "probHome p = (\<Sum>h<8. \<Sum>a<8. if a < h then poissonPMF lH h * poissonPMF lA a else 0) * 100"
    and "probDraw p = (\<Sum>h<8. \<Sum>a<8. if h = a then poissonPMF lH h * poissonPMF lA a else 0) * 100"
    and "probAway p = (\<Sum>h<8. \<Sum>a<8. if h < a then poissonPMF lH h * poissonPMF lA a else 0) * 100"
proof -
  have n: "Suc 7 = 8" by simp
  have tab: "\<And>f. (\<Sum>h<8. \<Sum>a<8. if f h a then map (\<lambda>k. poissonPMF lH k) [0..<8] ! h * map (\<lambda>k. poissonPMF lA k) [0..<8] ! a else 0)
     = (\<Sum>h<8. \<Sum>a<8. if f h a then poissonPMF lH h * poissonPMF lA a else (0::real))"
    by (intro sum.cong refl) (simp add: pmf_table_nth [of _ 7, unfolded n])
  have g: "scoreGrid 7 (map (\<lambda>k. poissonPMF lH k) [0..<8]) (map (\<lambda>k. poissonPMF lA k) [0..<8]) =
     ((\<Sum>h<8. \<Sum>a<8. if a < h then poissonPMF lH h * poissonPMF lA a else 0),
      (\<Sum>h<8. \<Sum>a<8. if h = a then poissonPMF lH h * poissonPMF lA a else 0),
      (\<Sum>h<8. \<Sum>a<8. if h < a then poissonPMF lH h * poissonPMF lA a else 0),
      (\<Sum>h<8. \<Sum>a<8. if 3 \<le> h + a then poissonPMF lH h * poissonPMF lA a else 0),
      (\<Sum>h<8. \<Sum>a<8. if 0 < h \<and> 0 < a then poissonPMF lH h * poissonPMF lA a else 0))"
    unfolding scoreGrid_sums n tab ..
  from assms have
    "probHome p = fst (scoreGrid 7 (map (\<lambda>k. poissonPMF lH k) [0..<8]) (map (\<lambda>k. poissonPMF lA k) [0..<8])) * 100
     \<and> probDraw p = fst (snd (scoreGrid 7 (map (\<lambda>k. poissonPMF lH k) [0..<8]) (map (\<lambda>k. poissonPMF lA k) [0..<8]))) * 100
     \<and> probAway p = fst (snd (snd (scoreGrid 7 (map (\<lambda>k. poissonPMF lH k) [0..<8]) (map (\<lambda>k. poissonPMF lA k) [0..<8])))) * 100"
    unfolding buildPrediction_def Let_def n
    by (auto simp: case_prod_beta predictionOut.extend_def)
  then show "probHome p = (\<Sum>h<8. \<Sum>a<8. if a < h then poissonPMF lH h * poissonPMF lA a else 0) * 100"
    and "probDraw p = (\<Sum>h<8. \<Sum>a<8. if h = a then poissonPMF lH h * poissonPMF lA a else 0) * 100"
    and "probAway p = (\<Sum>h<8. \<Sum>a<8. if h < a then poissonPMF lH h * poissonPMF lA a else 0) * 100"
    unfolding g by simp_all
qed

subsection \<open>The truncated Poisson distribution function\<close>

text \<open>The mass of the goal counts below \<open>n\<close> is \<open>exp (- lam)\<close> times a partial sum of
  the exponential series; its derivative in the rate is the negated last term, so the
  mass falls as the rate grows.  For rates up to 3.2 the mass on 0 to 7 goals stays
  above 0.983; the bound on \<open>exp 3.2\<close> comes from the Maclaurin formula with
  remainder.\<close>

lemma poissonPMF_pos_rate:
  "0 < lam \<Longrightarrow> poissonPMF lam k = exp (- lam) * lam ^ k / fact k"
  by (simp add: poissonPMF_def factorial_fact)

lemma poissonPMF_pos: "0 < lam \<Longrightarrow> 0 < poissonPMF lam k"
  by (simp add: poissonPMF_pos_rate)

lemma exp_partial_sum:
  fixes x :: real
  assumes "0 \<le> x"
  shows "(\<Sum>k<n. x ^ k / fact k) \<le> exp x"
proof -
  have "(\<Sum>k<n. x ^ k / fact k) = (\<Sum>k<n. inverse (fact k) * x ^ k)"
    by (simp add: field_simps)
  also have "\<dots> \<le> (\<Sum>k. inverse (fact k) * x ^ k)"
    using assms by (intro sum_le_suminf [OF summable_exp]) simp_all
  also have "\<dots> = exp x"
    by (simp add: exp_def field_simps)
  finally show ?thesis .
qed

lemma truncated_mass:
  "0 < lam \<Longrightarrow> (\<Sum>k<n. poissonPMF lam k) = exp (- lam) * (\<Sum>k<n. lam ^ k / fact k)"
  by (simp add: poissonPMF_pos_rate sum_distrib_left)

lemma truncated_mass_pos:
  assumes "0 < lam" shows "0 < (\<Sum>k<Suc n. poissonPMF lam k)"
  using assms by (intro sum_pos) (auto simp: poissonPMF_pos)

lemma truncated_mass_less_one:
  assumes "0 < lam" shows "(\<Sum>k<n. poissonPMF lam k) < 1"
proof -
  have "(\<Sum>k<n. lam ^ k / fact k) < (\<Sum>k<Suc n. lam ^ k / fact k)"
    using assms by simp
  also have "\<dots> \<le> exp lam"
    using assms by (intro exp_partial_sum) simp
  finally have "exp (- lam) * (\<Sum>k<n. lam ^ k / fact k) < exp (- lam) * exp lam"
    by simp
  then show ?thesis
    using assms by (simp add: truncated_mass exp_minus)
qed

lemma pmf_term_deriv:
  "((\<lambda>x. exp (- x) * x ^ Suc n / fact (Suc n)) has_real_derivative
      (exp (- x) * x ^ n / fact n - exp (- x) * x ^ Suc n / fact (Suc n))) (at x)"
proof -
  have c: "(fact (Suc n) :: real) = real (Suc n) * fact n"
    by (simp only: fact_Suc of_nat_mult)
  have d1: "((\<lambda>x. x ^ Suc n) has_real_derivative real (Suc n) * x ^ n) (at x)"
    using DERIV_pow [of "Suc n" x] by (simp del: power_Suc of_nat_Suc)
  have d2: "((\<lambda>x. exp (- x)) has_real_derivative - exp (- x)) (at x)"
    by (auto intro!: derivative_eq_intros)
  have "((\<lambda>x. exp (- x) * x ^ Suc n) has_real_derivative
          (- exp (- x) * x ^ Suc n + exp (- x) * (real (Suc n) * x ^ n))) (at x)"
    using DERIV_mult [OF d2 d1] by (simp only: mult.commute)
  then have "((\<lambda>x. exp (- x) * x ^ Suc n / fact (Suc n)) has_real_derivative
          (- exp (- x) * x ^ Suc n + exp (- x) * (real (Suc n) * x ^ n)) / fact (Suc n)) (at x)"
    by (rule DERIV_cdivide)
  moreover have "exp (- x) * (real (Suc n) * x ^ n) / fact (Suc n) = exp (- x) * x ^ n / fact n"
    unfolding c by simp
  ultimately show ?thesis
    by (simp add: diff_divide_distrib del: fact_Suc power_Suc of_nat_Suc)
qed

lemma cdf_deriv:
  "((\<lambda>x. \<Sum>k<Suc n. exp (- x) * x ^ k / fact k) has_real_derivative
      - (exp (- x) * x ^ n / fact n)) (at x)"
proof (induction n)
  case 0
  show ?case by (auto intro!: derivative_eq_intros)
next
  case (Suc n)
  have "((\<lambda>x. (\<Sum>k<Suc n. exp (- x) * x ^ k / fact k) + exp (- x) * x ^ Suc n / fact (Suc n))
          has_real_derivative
        - (exp (- x) * x ^ n / fact n)
        + (exp (- x) * x ^ n / fact n - exp (- x) * x ^ Suc n / fact (Suc n))) (at x)"
    by (rule DERIV_add [OF Suc.IH pmf_term_deriv])
  then show ?case by (simp only: sum.lessThan_Suc [of _ "Suc n"]) simp
qed

lemma cdf_decreasing:
  fixes x y :: real
  assumes "0 < x" and "x < y"
  shows "(\<Sum>k<Suc n. exp (- y) * y ^ k / fact k) < (\<Sum>k<Suc n. exp (- x) * x ^ k / fact k)"
proof (rule DERIV_neg_imp_decreasing [OF assms(2)])
  fix z :: real
  assume "x \<le> z" and "z \<le> y"
  with assms(1) have "0 < z" by simp
  then have "- (exp (- z) * z ^ n / fact n) < 0" by simp
  with cdf_deriv [of n z]
  show "\<exists>d. ((\<lambda>x. \<Sum>k<Suc n. exp (- x) * x ^ k / fact k) has_real_derivative d) (at z) \<and> d < 0"
    by blast
qed

lemma truncated_mass_antimono:
  assumes "0 < x" and "x \<le> y"
  shows "(\<Sum>k<8. poissonPMF y k) \<le> (\<Sum>k<8. poissonPMF x k)"
proof (cases "x = y")
  case True
  then show ?thesis by simp
next
  case False
  with assms have xy: "x < y" and y: "0 < y" by simp_all
  have "(\<Sum>k<Suc 7. poissonPMF y k) < (\<Sum>k<Suc 7. poissonPMF x k)"
    using cdf_decreasing [OF assms(1) xy, of 7]
    by (simp only: poissonPMF_pos_rate [OF y] poissonPMF_pos_rate [OF assms(1)])
  then show ?thesis by simp
qed

lemma exp_upper_16_5:
  "exp (16 / 5 :: real) * (1 - (16 / 5) ^ 14 / fact 14) \<le> (\<Sum>k<14. (16 / 5) ^ k / fact k)"
proof -
  obtain t :: real where t: "\<bar>t\<bar> \<le> \<bar>16 / 5\<bar>"
    and e: "exp (16 / 5 :: real) = (\<Sum>m<14. (16 / 5) ^ m / fact m) + (exp t / fact 14) * (16 / 5) ^ 14"
    using Maclaurin_exp_le [of "16 / 5" 14] by blast
  from t have "exp t \<le> exp (16 / 5 :: real)" by simp
  then have "(exp t / fact 14) * (16 / 5) ^ 14 \<le> (exp (16 / 5 :: real) / fact 14) * (16 / 5) ^ 14"
    by (intro mult_right_mono divide_right_mono) simp_all
  with e have "exp (16 / 5 :: real)
      \<le> (\<Sum>m<14. (16 / 5) ^ m / fact m) + (exp (16 / 5 :: real) / fact 14) * (16 / 5) ^ 14"
    by linarith
  then show ?thesis by (simp add: algebra_simps)
qed

lemma exp_16_5_le_25: "exp (16 / 5 :: real) \<le> 25"
proof -
  let ?s14 = "\<Sum>k<14. (16 / 5 :: real) ^ k / fact k"
  let ?q = "1 - (16 / 5 :: real) ^ 14 / fact 14"
  have q: "0 < ?q" by (simp add: eval_nat_numeral)
  have "?s14 \<le> 25 * ?q" by (simp add: eval_nat_numeral sum.lessThan_Suc)
  with exp_upper_16_5 have "exp (16 / 5 :: real) * ?q \<le> 25 * ?q" by linarith
  then show ?thesis using q by (simp only: mult_le_cancel_right_pos)
qed

lemma exp_minus_clamped:
  fixes x :: real
  assumes "x \<le> 3.2"
  shows "1 / 25 \<le> exp (- x)"
proof -
  have "exp x \<le> exp (16 / 5 :: real)" using assms by simp
  with exp_16_5_le_25 have "exp x \<le> 25" by linarith
  then have "inverse 25 \<le> inverse (exp x)"
    by (intro le_imp_inverse_le) simp_all
  then show ?thesis by (simp add: exp_minus)
qed

lemma truncated_mass_16_5: "983 / 1000 \<le> (\<Sum>k<8. poissonPMF (16 / 5) k)"
proof -
  let ?s8 = "\<Sum>k<8. (16 / 5 :: real) ^ k / fact k"
  let ?s14 = "\<Sum>k<14. (16 / 5 :: real) ^ k / fact k"
  let ?q = "1 - (16 / 5 :: real) ^ 14 / fact 14"
  have q: "0 < ?q" by (simp add: eval_nat_numeral)
  have num: "983 / 1000 * ?s14 \<le> ?s8 * ?q"
    by (simp add: eval_nat_numeral sum.lessThan_Suc)
  have "983 / 1000 * (exp (16 / 5) * ?q) \<le> 983 / 1000 * ?s14"
    using exp_upper_16_5 by (intro mult_left_mono) simp_all
  also note num
  finally have "983 / 1000 * exp (16 / 5) * ?q \<le> ?s8 * ?q" by (simp add: mult.assoc)
  then have "983 / 1000 * exp (16 / 5 :: real) \<le> ?s8"
    using q by (simp only: mult_le_cancel_right_pos)
  then have "983 / 1000 \<le> exp (- (16 / 5 :: real)) * ?s8"
    by (simp add: exp_minus field_simps)
  then show ?thesis
    using truncated_mass [of "16 / 5" 8] by simp
qed

lemma truncated_mass_clamped:
  assumes "0.4 \<le> lam" and "lam \<le> 3.2"
  shows "983 / 1000 \<le> (\<Sum>k<8. poissonPMF lam k)" and "(\<Sum>k<8. poissonPMF lam k) < 1"
proof -
  have pos: "0 < lam" using assms(1) by simp
  have "lam \<le> 16 / 5" using assms(2) by simp
  from truncated_mass_antimono [OF pos this] truncated_mass_16_5
  show "983 / 1000 \<le> (\<Sum>k<8. poissonPMF lam k)" by linarith
  show "(\<Sum>k<8. poissonPMF lam k) < 1" by (rule truncated_mass_less_one [OF pos])
qed

subsection \<open>Total of the three outcome probabilities\<close>

lemma outcome_split:
  fixes x :: real and a h :: nat
  shows "(if a < h then x else 0) + (if h = a then x else 0) + (if h < a then x else 0) = x"
  by (cases a h rule: linorder_cases) simp_all

lemma outcome_sum_product:
  assumes "buildPrediction lH lA (Some c) = Inr p"
  shows "probHome p + probDraw p + probAway p
           = 100 * ((\<Sum>h<8. poissonPMF lH h) * (\<Sum>a<8. poissonPMF lA a))"
proof -
  have "probHome p + probDraw p + probAway p =
      (\<Sum>h<8. \<Sum>a<8. (if a < h then poissonPMF lH h * poissonPMF lA a else 0)
                    + (if h = a then poissonPMF lH h * poissonPMF lA a else 0)
                    + (if h < a then poissonPMF lH h * poissonPMF lA a else 0)) * 100"
    unfolding buildPrediction_probs [OF assms]
    by (simp add: sum.distrib distrib_right)
  also have "\<dots> = (\<Sum>h<8. \<Sum>a<8. poissonPMF lH h * poissonPMF lA a) * 100"
    unfolding outcome_split ..
  also have "\<dots> = 100 * ((\<Sum>h<8. poissonPMF lH h) * (\<Sum>a<8. poissonPMF lA a))"
    by (simp add: sum_product)
  finally show ?thesis .
qed

text \<open>
  Claim C4, as amended: for all rates in the range from 0.4 to 3.2, to which the rates
  are clamped, the three outcome probabilities add up to within 3.5 of 100.  (As
  stated, for all positive rates and within one millionth of 100, the claim fails:
  the loops stop at 7 goals a side and the mass of the higher scores is missing from
  the total.)
\<close>

theorem outcome_total_tolerance:
  assumes "0.4 \<le> lambdaHome" and "lambdaHome \<le> 3.2"
    and "0.4 \<le> lambdaAway" and "lambdaAway \<le> 3.2"
  shows "\<exists>p. buildPrediction lambdaHome lambdaAway (Some c) = Inr p
          \<and> \<bar>probHome p + probDraw p + probAway p - 100\<bar> \<le> 3.5"
proof -
  obtain p where p: "buildPrediction lambdaHome lambdaAway (Some c) = Inr p"
    using buildPrediction_Some by blast
  let ?mH = "\<Sum>h<8. poissonPMF lambdaHome h" and ?mA = "\<Sum>a<8. poissonPMF lambdaAway a"
  note mH = truncated_mass_clamped [OF assms(1,2)]
  note mA = truncated_mass_clamped [OF assms(3,4)]
  have "983 / 1000 * (983 / 1000) \<le> ?mH * ?mA"
    using mH(1) mA(1) by (intro mult_mono) simp_all
  moreover have "?mH * ?mA \<le> 1 * 1"
    using mH mA by (intro mult_mono) simp_all
  ultimately have "\<bar>100 * (?mH * ?mA) - 100\<bar> \<le> 3.5" by simp
  then show ?thesis
    using p outcome_sum_product [OF p] by simp
qed

theorem outcome_total_tolerance_witness:
  "(0.4::real) \<le> 1.35 \<and> (1.35::real) \<le> 3.2 \<and> (0.4::real) \<le> 1.25 \<and> (1.25::real) \<le> 3.2 \<and>
   (\<exists>p. buildPrediction 1.35 1.25 (Some fallbackContext) = Inr p
        \<and> \<bar>probHome p + probDraw p + probAway p - 100\<bar> \<le> 3.5)"
proof -
  have h: "(0.4::real) \<le> 1.35" "(1.35::real) \<le> 3.2" "(0.4::real) \<le> 1.25" "(1.25::real) \<le> 3.2"
    by simp_all
  from outcome_total_tolerance [OF h, of fallbackContext] h show ?thesis by blast
qed

text \<open>At the fallback rates 1.35 and 1.25 the total is more than one millionth short
  of 100: the partial sums of the exponential series bound \<open>exp (- 1.35)\<close>.\<close>

lemma exp_series_ratio:
  "100 * ((\<Sum>k<8. (27 / 20 :: real) ^ k / fact k) / (\<Sum>k<9. (27 / 20 :: real) ^ k / fact k))
     < 100 - 1 / 10 ^ 6"
  by (simp add: eval_nat_numeral sum.lessThan_Suc)

theorem outcome_total_counterexample:
  "\<not> isl (buildPrediction 1.35 1.25 (Some fallbackContext)) \<and>
   \<not> \<bar>probHome (projr (buildPrediction 1.35 1.25 (Some fallbackContext)))
       + probDraw (projr (buildPrediction 1.35 1.25 (Some fallbackContext)))
       + probAway (projr (buildPrediction 1.35 1.25 (Some fallbackContext))) - 100\<bar>
      \<le> 1 / 10 ^ 6"
proof -
  obtain p where p: "buildPrediction 1.35 1.25 (Some fallbackContext) = Inr p"
    using buildPrediction_Some by blast
  let ?s8 = "\<Sum>k<8. (27 / 20 :: real) ^ k / fact k"
  let ?s9 = "\<Sum>k<9. (27 / 20 :: real) ^ k / fact k"
  let ?mH = "\<Sum>h<8. poissonPMF 1.35 h" and ?mA = "\<Sum>a<8. poissonPMF 1.25 a"
  have s8: "0 < ?s8" by (simp add: eval_nat_numeral sum.lessThan_Suc)
  have s9: "0 < ?s9" by (simp add: eval_nat_numeral sum.lessThan_Suc)
  have "?s9 \<le> exp (27 / 20)" by (intro exp_partial_sum) simp
  then have "inverse (exp (27 / 20 :: real)) \<le> inverse ?s9"
    using s9 by (intro le_imp_inverse_le)
  then have "exp (- (27 / 20 :: real)) * ?s8 \<le> inverse ?s9 * ?s8"
    using s8 by (intro mult_right_mono) (simp_all add: exp_minus)
  moreover have "?mH = exp (- (27 / 20 :: real)) * ?s8"
    using truncated_mass [of "27 / 20" 8] by simp
  ultimately have mH: "?mH \<le> ?s8 / ?s9" by (simp add: field_simps)
  have mH0: "0 < ?mH" using truncated_mass_pos [of "1.35" 7] by simp
  have mA: "?mA < 1" using truncated_mass_less_one [of "1.25" 8] by simp
  have "?mH * ?mA < ?mH * 1" using mH0 mA by (intro mult_strict_left_mono)
  with mH have "100 * (?mH * ?mA) < 100 * (?s8 / ?s9)" by simp
  also have "\<dots> < 100 - 1 / 10 ^ 6" by (rule exp_series_ratio)
  finally have "probHome p + probDraw p + probAway p < 100 - 1 / 10 ^ 6"
    using outcome_sum_product [OF p] by simp
  then show ?thesis using p by simp
qed

subsection \<open>Monotonicity in the home rate\<close>

text \<open>The home-win mass is a sum over the away goals \<open>a\<close> of the away mass at \<open>a\<close>
  times the home tail from \<open>a + 1\<close> to 7, and the away-win mass likewise with the home
  mass below \<open>a\<close>.  The derivative of a tail is the term at \<open>a\<close> minus the term at 7,
  which is positive for rates up to 3.2.  On the clamped range the home-win mass grows
  and the away-win mass falls with a slope of at least 1/2500 in the home rate, that
  is 1/25 for the percentages.\<close>

lemma tail_term_small:
  fixes x :: real
  assumes "0 < x" and "x \<le> 16 / 5" and "a < 7"
  shows "x ^ 7 / fact 7 < x ^ a / fact a"
proof -
  have split: "x ^ 7 = x ^ a * x ^ (7 - a)"
    using assms(3) by (simp flip: power_add)
  have "x ^ (7 - a) \<le> (16 / 5) ^ (7 - a)"
    using assms by (intro power_mono) simp_all
  moreover have "(16 / 5 :: real) ^ (7 - a) * fact a < fact 7"
  proof -
    from assms(3) have "a = 0 \<or> a = 1 \<or> a = 2 \<or> a = 3 \<or> a = 4 \<or> a = 5 \<or> a = 6"
      by arith
    then show ?thesis
      by (elim disjE) (simp_all add: eval_nat_numeral)
  qed
  ultimately have "x ^ (7 - a) * fact a < fact 7"
    by (smt (verit) fact_gt_zero mult_right_mono less_eq_real_def)
  then have "x ^ (7 - a) / fact 7 < 1 / fact a"
    by (simp add: field_simps)
  then have "x ^ a * (x ^ (7 - a) / fact 7) < x ^ a * (1 / fact a)"
    using assms(1) by (intro mult_strict_left_mono) simp_all
  then show ?thesis unfolding split by simp
qed

lemma tail_as_difference:
  fixes f :: "nat \<Rightarrow> real"
  assumes "a < 8"
  shows "(\<Sum>k\<in>{a<..<8}. f k) = (\<Sum>k<8. f k) - (\<Sum>k<Suc a. f k)"
proof -
  have "{..<8} = {..<Suc a} \<union> {a<..<8}" using assms by auto
  moreover have "{..<Suc a} \<inter> {a<..<8} = {}" by auto
  ultimately have "(\<Sum>k<8. f k) = (\<Sum>k<Suc a. f k) + (\<Sum>k\<in>{a<..<8}. f k)"
    by (simp add: sum.union_disjoint)
  then show ?thesis by simp
qed

lemma tail_deriv:
  assumes "a < 8"
  shows "((\<lambda>x. \<Sum>h\<in>{a<..<8}. exp (- x) * x ^ h / fact h) has_real_derivative
           (exp (- z) * z ^ a / fact a - exp (- z) * z ^ 7 / fact 7)) (at z)"
proof -
  have "((\<lambda>x. (\<Sum>k<Suc 7. exp (- x) * x ^ k / fact k) - (\<Sum>k<Suc a. exp (- x) * x ^ k / fact k))
          has_real_derivative
        - (exp (- z) * z ^ 7 / fact 7) - - (exp (- z) * z ^ a / fact a)) (at z)"
    by (rule DERIV_diff [OF cdf_deriv [of 7 z] cdf_deriv [of a z]])
  then show ?thesis
    by (simp only: tail_as_difference [OF assms]) simp
qed

lemma home_mass_by_away_goals:
  fixes f g :: "nat \<Rightarrow> real"
  shows "(\<Sum>h<8. \<Sum>a<8. if a < h then f h * g a else 0) = (\<Sum>a<8. g a * (\<Sum>h\<in>{a<..<8}. f h))"
proof -
  have "(\<Sum>h<8. \<Sum>a<8. if a < h then f h * g a else 0)
      = (\<Sum>a<8. \<Sum>h<8. if a < h then f h * g a else 0)"
    by (rule sum.swap)
  also have "\<dots> = (\<Sum>a<8. g a * (\<Sum>h\<in>{a<..<8}. f h))"
  proof (rule sum.cong [OF refl])
    fix a :: nat
    have set: "{h \<in> {..<8}. a < h} = {a<..<8}" by auto
    have "(\<Sum>h<8. if a < h then f h * g a else 0) = (\<Sum>h\<in>{h \<in> {..<8}. a < h}. f h * g a)"
      by (rule sum.inter_filter [symmetric]) (rule finite_lessThan)
    also have "\<dots> = g a * (\<Sum>h\<in>{a<..<8}. f h)"
      unfolding set by (simp add: sum_distrib_left mult.commute)
    finally show "(\<Sum>h<8. if a < h then f h * g a else 0) = g a * (\<Sum>h\<in>{a<..<8}. f h)" .
  qed
  finally show ?thesis .
qed

lemma away_mass_by_away_goals:
  fixes f g :: "nat \<Rightarrow> real"
  shows "(\<Sum>h<8. \<Sum>a<8. if h < a then f h * g a else 0) = (\<Sum>a<8. g a * (\<Sum>h<a. f h))"
proof -
  have "(\<Sum>h<8. \<Sum>a<8. if h < a then f h * g a else 0)
      = (\<Sum>a<8. \<Sum>h<8. if h < a then f h * g a else 0)"
    by (rule sum.swap)
  also have "\<dots> = (\<Sum>a<8. g a * (\<Sum>h<a. f h))"
  proof (rule sum.cong [OF refl])
    fix a :: nat
    assume "a \<in> {..<8}"
    then have set: "{h \<in> {..<8}. h < a} = {..<a}" by auto
    have "(\<Sum>h<8. if h < a then f h * g a else 0) = (\<Sum>h\<in>{h \<in> {..<8}. h < a}. f h * g a)"
      by (rule sum.inter_filter [symmetric]) (rule finite_lessThan)
    also have "\<dots> = g a * (\<Sum>h<a. f h)"
      unfolding set by (simp add: sum_distrib_left mult.commute)
    finally show "(\<Sum>h<8. if h < a then f h * g a else 0) = g a * (\<Sum>h<a. f h)" .
  qed
  finally show ?thesis .
qed

lemma home_mass_deriv:
  "((\<lambda>x. \<Sum>a<8. g a * (\<Sum>h\<in>{a<..<8}. exp (- x) * x ^ h / fact h)) has_real_derivative
      (\<Sum>a<8. g a * (exp (- z) * z ^ a / fact a - exp (- z) * z ^ 7 / fact 7))) (at z)"
proof (rule DERIV_sum)
  fix a :: nat
  assume "a \<in> {..<8}"
  then have "a < 8" by simp
  from DERIV_cmult [OF tail_deriv [OF this, of z], of "g a"]
  show "((\<lambda>x. g a * (\<Sum>h\<in>{a<..<8}. exp (- x) * x ^ h / fact h)) has_real_derivative
          g a * (exp (- z) * z ^ a / fact a - exp (- z) * z ^ 7 / fact 7)) (at z)" .
qed

lemma home_slope_bound:
  assumes "0.4 \<le> lA" and "lA \<le> 3.2" and "0 < z" and "z \<le> 3.2"
  shows "1 / 2500 \<le> (\<Sum>a<8. poissonPMF lA a * (exp (- z) * z ^ a / fact a - exp (- z) * z ^ 7 / fact 7))"
proof -
  have lA: "0 < lA" using assms(1) by simp
  have z': "z \<le> 16 / 5" using assms(4) by simp
  let ?t = "\<lambda>a. poissonPMF lA a * (exp (- z) * z ^ a / fact a - exp (- z) * z ^ 7 / fact 7)"
  have nonneg: "0 \<le> ?t a" if "a < 8" for a
  proof (cases "a = 7")
    case True
    then show ?thesis by simp
  next
    case False
    with that have "a < 7" by simp
    from tail_term_small [OF assms(3) z' this]
    have "exp (- z) * (z ^ 7 / fact 7) \<le> exp (- z) * (z ^ a / fact a)"
      by (intro mult_left_mono) simp_all
    then have "0 \<le> exp (- z) * z ^ a / fact a - exp (- z) * z ^ 7 / fact 7" by simp
    with poissonPMF_pos [OF lA, of a] show ?thesis by simp
  qed
  have "z ^ 7 \<le> (16 / 5) ^ 7" using assms(3) z' by (intro power_mono) simp_all
  then have "z ^ 7 / fact 7 \<le> 7 / 10" by (simp add: eval_nat_numeral)
  then have a1: "3 / 10 \<le> 1 - z ^ 7 / fact 7" by simp
  have a2: "1 / 25 \<le> exp (- z)" by (rule exp_minus_clamped [OF assms(4)])
  have a3: "1 / 25 * (3 / 10) \<le> exp (- z) * (1 - z ^ 7 / fact 7)"
    by (rule mult_mono [OF a2 a1]) simp_all
  have a4: "1 / 25 \<le> poissonPMF lA 0"
    using exp_minus_clamped [OF assms(2)] by (simp add: poissonPMF_pos_rate [OF lA])
  have "1 / 25 * (1 / 25 * (3 / 10)) \<le> poissonPMF lA 0 * (exp (- z) * (1 - z ^ 7 / fact 7))"
    by (rule mult_mono [OF a4 a3]) (use poissonPMF_pos [OF lA, of 0] in simp_all)
  then have "1 / 2500 \<le> ?t 0" by (simp add: algebra_simps)
  also have "?t 0 \<le> (\<Sum>a<8. ?t a)"
    by (rule member_le_sum) (simp_all add: nonneg)
  finally show ?thesis .
qed

lemma home_mass_slope:
  assumes "0.4 \<le> lA" and "lA \<le> 3.2" and "0.4 \<le> x" and "x \<le> y" and "y \<le> 3.2"
  shows "(\<Sum>a<8. poissonPMF lA a * (\<Sum>h\<in>{a<..<8}. poissonPMF x h)) + (y - x) / 2500
       \<le> (\<Sum>a<8. poissonPMF lA a * (\<Sum>h\<in>{a<..<8}. poissonPMF y h))"
proof -
  have x: "0 < x" and y: "0 < y" using assms by simp_all
  let ?W = "\<lambda>t. \<Sum>a<8. poissonPMF lA a * (\<Sum>h\<in>{a<..<8}. exp (- t) * t ^ h / fact h)"
  let ?g = "\<lambda>t. ?W t - t * (1 / 2500)"
  have "?g x \<le> ?g y"
  proof (rule DERIV_nonneg_imp_nondecreasing [OF assms(4)])
    fix z :: real
    assume "x \<le> z" and "z \<le> y"
    with assms x have z: "0 < z" "z \<le> 3.2" by simp_all
    let ?d = "\<Sum>a<8. poissonPMF lA a * (exp (- z) * z ^ a / fact a - exp (- z) * z ^ 7 / fact 7)"
    have "(?g has_real_derivative ?d - 1 * (1 / 2500)) (at z)"
      by (intro DERIV_diff home_mass_deriv DERIV_cmult_right DERIV_ident)
    moreover have "0 \<le> ?d - 1 * (1 / 2500)"
      using home_slope_bound [OF assms(1,2) z] by simp
    ultimately show "\<exists>d. (?g has_real_derivative d) (at z) \<and> 0 \<le> d" by blast
  qed
  then have "?W x + (y - x) / 2500 \<le> ?W y" by (simp add: field_simps)
  then show ?thesis
    by (simp only: poissonPMF_pos_rate [OF x] poissonPMF_pos_rate [OF y])
qed

lemma cdf_deriv_any:
  "((\<lambda>x. \<Sum>h<a. exp (- x) * x ^ h / fact h) has_real_derivative
      (case a of 0 \<Rightarrow> 0 | Suc n \<Rightarrow> - (exp (- z) * z ^ n / fact n))) (at z)"
proof (cases a)
  case 0
  then show ?thesis by simp
next
  case (Suc n)
  then show ?thesis using cdf_deriv [of n z] by simp
qed

lemma away_mass_deriv:
  "((\<lambda>x. \<Sum>a<8. g a * (\<Sum>h<a. exp (- x) * x ^ h / fact h)) has_real_derivative
      (\<Sum>a<8. g a * (case a of 0 \<Rightarrow> 0 | Suc n \<Rightarrow> - (exp (- z) * z ^ n / fact n)))) (at z)"
proof (rule DERIV_sum)
  fix a :: nat
  from DERIV_cmult [OF cdf_deriv_any [of a z], of "g a"]
  show "((\<lambda>x. g a * (\<Sum>h<a. exp (- x) * x ^ h / fact h)) has_real_derivative
          g a * (case a of 0 \<Rightarrow> 0 | Suc n \<Rightarrow> - (exp (- z) * z ^ n / fact n))) (at z)" .
qed

lemma away_slope_bound:
  assumes "0.4 \<le> lA" and "lA \<le> 3.2" and "0 < z" and "z \<le> 3.2"
  shows "(\<Sum>a<8. poissonPMF lA a * (case a of 0 \<Rightarrow> 0 | Suc n \<Rightarrow> - (exp (- z) * z ^ n / fact n)))
           \<le> - (1 / 2500)"
proof -
  have lA: "0 < lA" using assms(1) by simp
  let ?t = "\<lambda>a. poissonPMF lA a * (case a of 0 \<Rightarrow> 0 | Suc n \<Rightarrow> exp (- z) * z ^ n / fact n)"
  have nonneg: "0 \<le> ?t a" for a
    using poissonPMF_pos [OF lA, of a] assms(3) by (cases a) simp_all
  have a1: "1 / 25 \<le> exp (- z)" by (rule exp_minus_clamped [OF assms(4)])
  have a2: "1 / 25 \<le> exp (- lA)" by (rule exp_minus_clamped [OF assms(2)])
  have a3: "2 / 5 * (1 / 25) \<le> lA * exp (- lA)"
    by (rule mult_mono) (use assms(1) a2 in simp_all)
  have "2 / 5 * (1 / 25) * (1 / 25) \<le> lA * exp (- lA) * exp (- z)"
    by (rule mult_mono [OF a3 a1]) (use lA in simp_all)
  then have "1 / 2500 \<le> ?t (Suc 0)"
    by (simp add: poissonPMF_pos_rate [OF lA] mult_ac)
  also have "?t (Suc 0) \<le> (\<Sum>a<8. ?t a)"
    by (rule member_le_sum) (simp_all add: nonneg)
  finally have "- (\<Sum>a<8. ?t a) \<le> - (1 / 2500)" by simp
  moreover have "(\<Sum>a<8. poissonPMF lA a * (case a of 0 \<Rightarrow> 0 | Suc n \<Rightarrow> - (exp (- z) * z ^ n / fact n)))
        = - (\<Sum>a<8. ?t a)"
    unfolding sum_negf [symmetric]
    by (intro sum.cong refl) (simp split: nat.split)
  ultimately show ?thesis by simp
qed

lemma away_mass_slope:
  assumes "0.4 \<le> lA" and "lA \<le> 3.2" and "0.4 \<le> x" and "x \<le> y" and "y \<le> 3.2"
  shows "(\<Sum>a<8. poissonPMF lA a * (\<Sum>h<a. poissonPMF y h)) + (y - x) / 2500
       \<le> (\<Sum>a<8. poissonPMF lA a * (\<Sum>h<a. poissonPMF x h))"
proof -
  have x: "0 < x" and y: "0 < y" using assms by simp_all
  let ?W = "\<lambda>t. \<Sum>a<8. poissonPMF lA a * (\<Sum>h<a. exp (- t) * t ^ h / fact h)"
  let ?g = "\<lambda>t. - ?W t - t * (1 / 2500)"
  have "?g x \<le> ?g y"
  proof (rule DERIV_nonneg_imp_nondecreasing [OF assms(4)])
    fix z :: real
    assume "x \<le> z" and "z \<le> y"
    with assms x have z: "0 < z" "z \<le> 3.2" by simp_all
    let ?d = "\<Sum>a<8. poissonPMF lA a * (case a of 0 \<Rightarrow> 0 | Suc n \<Rightarrow> - (exp (- z) * z ^ n / fact n))"
    have "(?g has_real_derivative - ?d - 1 * (1 / 2500)) (at z)"
      by (intro DERIV_diff DERIV_minus away_mass_deriv DERIV_cmult_right DERIV_ident)
    moreover have "0 \<le> - ?d - 1 * (1 / 2500)"
      using away_slope_bound [OF assms(1,2) z] by simp
    ultimately show "\<exists>d. (?g has_real_derivative d) (at z) \<and> 0 \<le> d" by blast
  qed
  then have "?W y + (y - x) / 2500 \<le> ?W x" by (simp add: field_simps)
  then show ?thesis
    by (simp only: poissonPMF_pos_rate [OF x] poissonPMF_pos_rate [OF y])
qed

lemma home_rate_slopes:
  assumes "0.4 \<le> lA" and "lA \<le> 3.2" and "0.4 \<le> lH" and "lH \<le> lH'" and "lH' \<le> 3.2"
    and p: "buildPrediction lH lA (Some c) = Inr p"
    and p': "buildPrediction lH' lA (Some c') = Inr p'"
  shows "probHome p + (lH' - lH) / 25 \<le> probHome p'"
    and "probAway p' + (lH' - lH) / 25 \<le> probAway p"
proof -
  show "probHome p + (lH' - lH) / 25 \<le> probHome p'"
    using home_mass_slope [OF assms(1-5)]
    unfolding buildPrediction_probs [OF p] buildPrediction_probs [OF p'] home_mass_by_away_goals
    by simp
  show "probAway p' + (lH' - lH) / 25 \<le> probAway p"
    using away_mass_slope [OF assms(1-5)]
    unfolding buildPrediction_probs [OF p] buildPrediction_probs [OF p'] away_mass_by_away_goals
    by simp
qed

text \<open>
  Claim C6, as amended: for all rates in the range from 0.4 to 3.2, to which the rates
  are clamped, and a fixed lambdaAway, increasing lambdaHome by at least one millionth
  strictly increases probHome and does not increase probAway.  (As stated, for every
  increase of lambdaHome and every positive lambdaAway, the claim fails: the loops
  stop at 7 goals, and for large rates the home wins move out of the table.  The least
  step keeps the change, at least a 25th of the step by \<open>home_rate_slopes\<close>, above
  the rounding of the program's arithmetic, which the model does not have.)
\<close>

theorem home_rate_monotone_clamped:
  assumes "0.4 \<le> lambdaAway" and "lambdaAway \<le> 3.2"
    and "0.4 \<le> lambdaHome" and "lambdaHome + 1 / 10 ^ 6 \<le> lambdaHome'"
    and "lambdaHome' \<le> 3.2"
  shows "\<exists>p p'. buildPrediction lambdaHome lambdaAway (Some c) = Inr p
            \<and> buildPrediction lambdaHome' lambdaAway (Some c') = Inr p'
            \<and> probHome p < probHome p'
            \<and> probAway p' \<le> probAway p"
proof -
  have le: "lambdaHome \<le> lambdaHome'" and step: "0 < (lambdaHome' - lambdaHome) / 25"
    using assms(4) by simp_all
  obtain p where p: "buildPrediction lambdaHome lambdaAway (Some c) = Inr p"
    using buildPrediction_Some by blast
  obtain p' where p': "buildPrediction lambdaHome' lambdaAway (Some c') = Inr p'"
    using buildPrediction_Some by blast
  from home_rate_slopes [OF assms(1,2,3) le assms(5) p p'] step
  have "probHome p < probHome p'" and "probAway p' \<le> probAway p"
    by linarith+
  then show ?thesis using p p' by blast
qed

theorem home_rate_monotone_clamped_witness:
  "(0.4::real) \<le> 1.25 \<and> (1.25::real) \<le> 3.2 \<and> (0.4::real) \<le> 1.35 \<and>
   (1.35::real) + 1 / 10 ^ 6 \<le> 2 \<and> (2::real) \<le> 3.2 \<and>
   (\<exists>p p'. buildPrediction 1.35 1.25 (Some fallbackContext) = Inr p
         \<and> buildPrediction 2 1.25 (Some fallbackContext) = Inr p'
         \<and> probHome p < probHome p' \<and> probAway p' \<le> probAway p)"
proof -
  have h: "(0.4::real) \<le> 1.25" "(1.25::real) \<le> 3.2" "(0.4::real) \<le> 1.35"
    "(1.35::real) + 1 / 10 ^ 6 \<le> 2" "(2::real) \<le> 3.2"
    by simp_all
  from home_rate_monotone_clamped [OF h, of fallbackContext fallbackContext] h
  show ?thesis by blast
qed

text \<open>With lambdaAway 1, probHome falls when lambdaHome goes from 5 to 6.\<close>

lemma home_mass_factored:
  assumes "0 < x" and "0 < lA"
  shows "(\<Sum>h<8. \<Sum>a<8. if a < h then poissonPMF x h * poissonPMF lA a else 0)
       = exp (- x) * exp (- lA) * (\<Sum>h<8. \<Sum>a<8. if a < h then x ^ h / fact h * (lA ^ a / fact a) else 0)"
proof -
  have "(if a < h then poissonPMF x h * poissonPMF lA a else 0)
      = exp (- x) * exp (- lA) * (if a < h then x ^ h / fact h * (lA ^ a / fact a) else 0)"
    for a h :: nat
    by (simp add: poissonPMF_pos_rate [OF assms(1)] poissonPMF_pos_rate [OF assms(2)])
  then show ?thesis
    by (simp only: sum_distrib_left)
qed

lemma home_polynomial_5_6:
  "2 / 5 * (\<Sum>h<8. \<Sum>a<8. if a < h then (6::real) ^ h / fact h * (1 ^ a / fact a) else 0)
     < (\<Sum>h<8. \<Sum>a<8. if a < h then (5::real) ^ h / fact h * (1 ^ a / fact a) else 0)"
  by (simp add: eval_nat_numeral sum.lessThan_Suc)

lemma exp_minus_one_bound: "exp (- 1 :: real) \<le> 2 / 5"
proof -
  have "1 + (1::real) + 1\<^sup>2 / 2 \<le> exp 1"
    by (rule exp_lower_Taylor_quadratic) simp
  then have "(5 / 2 :: real) \<le> exp 1" by simp
  then have "inverse (exp (1::real)) \<le> inverse (5 / 2)"
    by (intro le_imp_inverse_le) simp_all
  then show ?thesis by (simp add: exp_minus)
qed

theorem home_rate_monotone_counterexample:
  "(0::real) < 1 \<and> (0::real) < 5 \<and> (5::real) < 6 \<and>
   \<not> isl (buildPrediction 5 1 (Some fallbackContext)) \<and>
   \<not> isl (buildPrediction 6 1 (Some fallbackContext)) \<and>
   \<not> probHome (projr (buildPrediction 5 1 (Some fallbackContext)))
       < probHome (projr (buildPrediction 6 1 (Some fallbackContext)))"
proof -
  obtain p where p: "buildPrediction 5 1 (Some fallbackContext) = Inr p"
    using buildPrediction_Some by blast
  obtain p' where p': "buildPrediction 6 1 (Some fallbackContext) = Inr p'"
    using buildPrediction_Some by blast
  let ?Q = "\<lambda>x::real. \<Sum>h<8. \<Sum>a<8. if a < h then x ^ h / fact h * (1 ^ a / fact a) else (0::real)"
  have hp: "probHome p = exp (- 5) * exp (- 1) * ?Q 5 * 100"
    unfolding buildPrediction_probs [OF p] using home_mass_factored [of 5 1] by simp
  have hp': "probHome p' = exp (- 6) * exp (- 1) * ?Q 6 * 100"
    unfolding buildPrediction_probs [OF p'] using home_mass_factored [of 6 1] by simp
  have Q6: "0 \<le> ?Q 6" by (intro sum_nonneg) simp
  have "exp (- 6 :: real) = exp (- 5) * exp (- 1)"
    by (simp flip: exp_add)
  also have "\<dots> \<le> exp (- 5) * (2 / 5)"
    using exp_minus_one_bound by (intro mult_left_mono) simp_all
  finally have "exp (- 6 :: real) * ?Q 6 \<le> exp (- 5) * (2 / 5) * ?Q 6"
    using Q6 by (intro mult_right_mono)
  also have "\<dots> = exp (- 5) * (2 / 5 * ?Q 6)" by simp
  also have "\<dots> < exp (- 5) * ?Q 5"
    using home_polynomial_5_6 by (intro mult_strict_left_mono) simp_all
  finally have "exp (- 6 :: real) * ?Q 6 < exp (- 5) * ?Q 5" .
  then have "exp (- 1 :: real) * (exp (- 6 :: real) * ?Q 6) < exp (- 1) * (exp (- 5) * ?Q 5)"
    by (intro mult_strict_left_mono) simp_all
  then have "probHome p' < probHome p"
    unfolding hp hp' by (simp add: mult_ac)
  then show ?thesis using p p' by simp
qed

end
